theory Spec2Isabelle
  imports Complex_Main "HOL-Library.Word"
begin

section \<open>JavaScript values\<close>

text \<open>
  Values that cross the cache and the network are JSON values. A JavaScript string is
  modelled by the bytes of its UTF-8 encoding, a \<open>string\<close>: two well-formed strings
  are equal exactly when their encodings are. A number is an \<open>int\<close> (the code only adds
  epoch milliseconds and durations, which are exact in a double).
\<close>

datatype json =
    JNull
  | JBool bool
  | JNum int
  | JStr string
  | JArr "json list"
  | JObj "(string \<times> json) list"

text \<open>JavaScript truthiness of a JSON value, as used by \<open>if (x)\<close> and \<open>x || y\<close>.\<close>

fun truthy :: "json \<Rightarrow> bool" where
  "truthy JNull = False"
| "truthy (JBool b) = b"
| "truthy (JNum n) = (n \<noteq> 0)"
| "truthy (JStr s) = (s \<noteq> [])"
| "truthy (JArr xs) = True"
| "truthy (JObj kvs) = True"

text \<open>\<open>a || b\<close> on an optional number: \<open>undefined\<close> and \<open>0\<close> are falsy.\<close>

definition num_or :: "int option \<Rightarrow> int \<Rightarrow> int" where
  "num_or a b = (case a of None \<Rightarrow> b | Some n \<Rightarrow> if n \<noteq> 0 then n else b)"

text \<open>
  \<open>String.prototype.toUpperCase\<close> on the ASCII letters. The code applies it to the
  name of an object store only: \<open>setCache\<close> reaches it after \<open>db.transaction\<close> has
  accepted the name.
\<close>

definition toUpperCase_char :: "char \<Rightarrow> char" where
  "toUpperCase_char c =
     (let n = (of_char c :: nat) in if 97 \<le> n \<and> n \<le> 122 then char_of (n - 32) else c)"

definition toUpperCase :: "string \<Rightarrow> string" where
  "toUpperCase s = map toUpperCase_char s"

text \<open>
  \<open>String.prototype.toLowerCase\<close>. The code points whose lower case is an ASCII letter
  are \<open>A\<close> to \<open>Z\<close> and the Kelvin sign U+212A (lower case \<open>k\<close>); they are mapped. The
  bytes of every other code point are kept, where the code would give other text outside
  ASCII; so the result equals an ASCII literal exactly when the result in the code does.
\<close>

definition toLowerCase_char :: "char \<Rightarrow> char" where
  "toLowerCase_char c =
     (let n = (of_char c :: nat) in if 65 \<le> n \<and> n \<le> 90 then char_of (n + 32) else c)"

definition KELVIN_SIGN :: string where
  "KELVIN_SIGN = [CHR 0xE2, CHR 0x84, CHR 0xAA]"

fun toLowerCase :: "string \<Rightarrow> string" where
  "toLowerCase (a # b # c # cs) =
     (if [a, b, c] = KELVIN_SIGN then CHR ''k'' # toLowerCase cs
      else toLowerCase_char a # toLowerCase (b # c # cs))"
| "toLowerCase (a # cs) = toLowerCase_char a # toLowerCase cs"
| "toLowerCase [] = []"

declare toLowerCase.simps [simp del]

section \<open>cacheService.js\<close>

subsection \<open>Cache names and expiry table\<close>

definition CACHE_NAMES_PLANTS :: string where
  "CACHE_NAMES_PLANTS = ''plants-data-cache''"

definition CACHE_NAMES_CLASSIFICATIONS :: string where
  "CACHE_NAMES_CLASSIFICATIONS = ''classifications-cache''"

definition CACHE_NAMES_QA :: string where
  "CACHE_NAMES_QA = ''qa-responses-cache''"

text \<open>\<open>Object.values(CACHE_NAMES)\<close>: the object stores that \<open>onupgradeneeded\<close> creates.\<close>

definition CACHE_NAMES_values :: "string list" where
  "CACHE_NAMES_values = [CACHE_NAMES_PLANTS, CACHE_NAMES_CLASSIFICATIONS, CACHE_NAMES_QA]"

text \<open>
  The object \<open>CACHE_EXPIRY\<close>, indexed by property name; a name that is not a property
  gives \<open>undefined\<close> (\<open>None\<close>).
\<close>

definition CACHE_EXPIRY :: "string \<Rightarrow> int option" where
  "CACHE_EXPIRY k =
     (if k = ''PLANTS'' then Some (24 * 60 * 60 * 1000)
      else if k = ''CLASSIFICATIONS'' then Some (30 * 60 * 1000)
      else if k = ''QA'' then Some (60 * 60 * 1000)
      else None)"

subsection \<open>The IndexedDB database\<close>

record cache_record =
  record_key :: string
  record_value :: json
  record_expiry :: int

text \<open>
  \<open>idbAvailable\<close> is the module constant \<open>'indexedDB' in window\<close>; \<open>stores\<close> maps an
  object store name to its records by key path \<open>key\<close>. The database has exactly the
  stores of \<open>CACHE_NAMES_values\<close>: \<open>db.transaction(name, ...)\<close> on another name throws.
\<close>

record idb =
  idbAvailable :: bool
  stores :: "string \<Rightarrow> string \<rightharpoonup> cache_record"

datatype idb_error = IndexedDB_not_available | NotFoundError

definition openDatabase :: "idb \<Rightarrow> idb_error + (string \<Rightarrow> string \<rightharpoonup> cache_record)" where
  "openDatabase s = (if \<not> idbAvailable s then Inl IndexedDB_not_available else Inr (stores s))"

definition transaction :: "string \<Rightarrow> idb_error + unit" where
  "transaction cacheName =
     (if cacheName \<in> set CACHE_NAMES_values then Inr () else Inl NotFoundError)"

subsection \<open>setCache, getCache, clearExpiredCache\<close>

text \<open>
  \<open>setCache now cacheName k v expiryTime s\<close>: \<open>now\<close> is the value \<open>Date.now()\<close> returns
  in the call. The result is \<open>null\<close> (\<open>None\<close>) or \<open>true\<close>, with the new database.
\<close>

definition setCache ::
  "int \<Rightarrow> string \<Rightarrow> string \<Rightarrow> json \<Rightarrow> int option \<Rightarrow> idb \<Rightarrow> bool option \<times> idb" where
  "setCache now cacheName k v expiryTime s =
     (if \<not> idbAvailable s then (None, s)
      else case openDatabase s of
        Inl e \<Rightarrow> (None, s)
      | Inr db \<Rightarrow>
         (case transaction cacheName of
            Inl e \<Rightarrow> (None, s)
          | Inr u \<Rightarrow>
             let expiry = now + num_or expiryTime (num_or (CACHE_EXPIRY (toUpperCase cacheName)) 0)
             in (Some True,
                 s\<lparr>stores := db(cacheName := (db cacheName)(k \<mapsto>
                      \<lparr>record_key = k, record_value = v, record_expiry = expiry\<rparr>))\<rparr>)))"

text \<open>
  \<open>getCache now cacheName k s\<close>: the cached value or \<open>null\<close> (\<open>JNull\<close>), with the new
  database: a record found expired is deleted.
\<close>

definition getCache :: "int \<Rightarrow> string \<Rightarrow> string \<Rightarrow> idb \<Rightarrow> json \<times> idb" where
  "getCache now cacheName k s =
     (if \<not> idbAvailable s then (JNull, s)
      else case openDatabase s of
        Inl e \<Rightarrow> (JNull, s)
      | Inr db \<Rightarrow>
         (case transaction cacheName of
            Inl e \<Rightarrow> (JNull, s)
          | Inr u \<Rightarrow>
             (case db cacheName k of
                None \<Rightarrow> (JNull, s)
              | Some result \<Rightarrow>
                  if record_expiry result > now then (record_value result, s)
                  else (JNull, s\<lparr>stores := db(cacheName := (db cacheName)(k := None))\<rparr>))))"

text \<open>
  The sweep: in every store, the cursor over \<open>IDBKeyRange.upperBound(now)\<close> on the
  expiry index visits the records with \<open>expiry \<le> now\<close>, and each is deleted.
\<close>

definition sweep_store :: "int \<Rightarrow> (string \<rightharpoonup> cache_record) \<Rightarrow> (string \<rightharpoonup> cache_record)" where
  "sweep_store now st =
     (\<lambda>k. case st k of None \<Rightarrow> None
          | Some r \<Rightarrow> if record_expiry r \<le> now then None else Some r)"

definition clearExpiredCache :: "int \<Rightarrow> idb \<Rightarrow> idb" where
  "clearExpiredCache now s =
     (if \<not> idbAvailable s then s
      else case openDatabase s of
        Inl e \<Rightarrow> s
      | Inr db \<Rightarrow>
          s\<lparr>stores := fold (\<lambda>cacheName d. d(cacheName := sweep_store now (d cacheName)))
                         CACHE_NAMES_values db\<rparr>)"

subsection \<open>The exported cache functions\<close>

definition cachePlantsData :: "int \<Rightarrow> json \<Rightarrow> idb \<Rightarrow> bool option \<times> idb" where
  "cachePlantsData now plants s = setCache now CACHE_NAMES_PLANTS ''all-plants'' plants None s"

definition getCachedPlantsData :: "int \<Rightarrow> idb \<Rightarrow> json \<times> idb" where
  "getCachedPlantsData now s = getCache now CACHE_NAMES_PLANTS ''all-plants'' s"

definition cacheClassifications :: "int \<Rightarrow> string \<Rightarrow> json \<Rightarrow> idb \<Rightarrow> bool option \<times> idb" where
  "cacheClassifications now imageHash cls s =
     setCache now CACHE_NAMES_CLASSIFICATIONS imageHash cls None s"

definition getCachedClassifications :: "int \<Rightarrow> string \<Rightarrow> idb \<Rightarrow> json \<times> idb" where
  "getCachedClassifications now imageHash s = getCache now CACHE_NAMES_CLASSIFICATIONS imageHash s"

definition cacheQAResponse :: "int \<Rightarrow> string \<Rightarrow> json \<Rightarrow> idb \<Rightarrow> bool option \<times> idb" where
  "cacheQAResponse now questionHash answer s = setCache now CACHE_NAMES_QA questionHash answer None s"

definition getCachedQAResponse :: "int \<Rightarrow> string \<Rightarrow> idb \<Rightarrow> json \<times> idb" where
  "getCachedQAResponse now questionHash s = getCache now CACHE_NAMES_QA questionHash s"


section \<open>PlantChatbot.js\<close>

subsection \<open>Strings\<close>

text \<open>
  The code points that \<open>String.prototype.trim\<close> strips, each as its UTF-8 bytes: the
  white space U+0009, U+000B, U+000C, U+0020, U+00A0, U+1680, U+2000 to U+200A, U+202F,
  U+205F, U+3000 and U+FEFF, and the line terminators U+000A, U+000D, U+2028 and U+2029.
\<close>

definition WhiteSpace :: "string list" where
  "WhiteSpace =
     [[CHR 0x09], [CHR 0x0A], [CHR 0x0B], [CHR 0x0C], [CHR 0x0D], [CHR 0x20],
      [CHR 0xC2, CHR 0xA0],
      [CHR 0xE1, CHR 0x9A, CHR 0x80],
      [CHR 0xE2, CHR 0x80, CHR 0x80], [CHR 0xE2, CHR 0x80, CHR 0x81],
      [CHR 0xE2, CHR 0x80, CHR 0x82], [CHR 0xE2, CHR 0x80, CHR 0x83],
      [CHR 0xE2, CHR 0x80, CHR 0x84], [CHR 0xE2, CHR 0x80, CHR 0x85],
      [CHR 0xE2, CHR 0x80, CHR 0x86], [CHR 0xE2, CHR 0x80, CHR 0x87],
      [CHR 0xE2, CHR 0x80, CHR 0x88], [CHR 0xE2, CHR 0x80, CHR 0x89],
      [CHR 0xE2, CHR 0x80, CHR 0x8A],
      [CHR 0xE2, CHR 0x80, CHR 0xA8], [CHR 0xE2, CHR 0x80, CHR 0xA9],
      [CHR 0xE2, CHR 0x80, CHR 0xAF],
      [CHR 0xE2, CHR 0x81, CHR 0x9F],
      [CHR 0xE3, CHR 0x80, CHR 0x80],
      [CHR 0xEF, CHR 0xBB, CHR 0xBF]]"

text \<open>
  \<open>stripStart ws s\<close> removes from the front of \<open>s\<close> every leading occurrence of a
  sequence of \<open>ws\<close>. \<open>trim\<close> strips the white space from the front, and from the end
  by the same on the reversed bytes: in UTF-8 a sequence of \<open>WhiteSpace\<close> at the end of
  a string is its last code point.
\<close>

function stripStart :: "string list \<Rightarrow> string \<Rightarrow> string" where
  "stripStart ws s =
     (case find (\<lambda>w. w \<noteq> [] \<and> take (length w) s = w) ws of
        None \<Rightarrow> s
      | Some w \<Rightarrow> stripStart ws (drop (length w) s))"
  by pat_completeness auto
termination
proof (relation "measure (\<lambda>(ws, s). length s)")
  show "wf (measure (\<lambda>(ws, s). length s))"
    by simp
next
  fix ws :: "string list" and s w :: string
  assume "find (\<lambda>w. w \<noteq> [] \<and> take (length w) s = w) ws = Some w"
  then have "w \<noteq> []" and "take (length w) s = w"
    by (auto simp: find_Some_iff)
  then have "s \<noteq> []"
    by auto
  with \<open>w \<noteq> []\<close> show "((ws, drop (length w) s), (ws, s)) \<in> measure (\<lambda>(ws, s). length s)"
    by simp
qed

declare stripStart.simps [simp del]

definition trim :: "string \<Rightarrow> string" where
  "trim s = rev (stripStart (map rev WhiteSpace) (rev (stripStart WhiteSpace s)))"

definition startsWith :: "string \<Rightarrow> string \<Rightarrow> bool" where
  "startsWith s p = (take (length p) s = p)"

text \<open>Truthiness of a string state variable that is \<open>null\<close> or a string.\<close>

definition truthy_str :: "string option \<Rightarrow> bool" where
  "truthy_str x = (case x of None \<Rightarrow> False | Some v \<Rightarrow> v \<noteq> [])"

text \<open>
  The label by which \<open>/api/classify\<close> reports a plant outside the database, as the UTF-8
  bytes of the literal compared against in \<open>handleImageClassification\<close>.
\<close>

definition OOD_LABEL :: string where
  "OOD_LABEL = ''Kh'' @ [CHR 0xC3, CHR 0xB4] @ ''ng t'' @ [CHR 0xE1, CHR 0xBB, CHR 0x93] @ ''n t''
     @ [CHR 0xE1, CHR 0xBA, CHR 0xA1] @ ''i trong c'' @ [CHR 0xC6, CHR 0xA1] @ '' s''
     @ [CHR 0xE1, CHR 0xBB, CHR 0x9F] @ '' d'' @ [CHR 0xE1, CHR 0xBB, CHR 0xAF] @ '' li''
     @ [CHR 0xE1, CHR 0xBB, CHR 0x87] @ ''u''"

subsection \<open>Messages\<close>

datatype message_type = TEXT | IMAGE | MULTI_IMAGE | CLASSIFICATION | SELECTION

datatype sender = USER | BOT

text \<open>
  The texts the component shows. \<open>Str\<close> is a string that comes from the user or the
  backend; every other constructor stands for one literal or template literal of the
  source, with the interpolated values as arguments.
\<close>

datatype phrase =
    Str string
  | TXT_welcome
  | TXT_invalid_file
  | TXT_send_error
  | TXT_processing_images nat
  | TXT_classify_http nat
  | TXT_ood
  | TXT_select_prompt_question
  | TXT_select_prompt
  | TXT_no_results
  | TXT_classify_error phrase
  | TXT_selected string
  | TXT_ask_prompt string
  | TXT_processing_question
  | TXT_answering_question
  | TXT_no_answer
  | TXT_qa_http nat
  | TXT_qa_error phrase
  | TXT_paste_error
  | TXT_type_error

record classification =
  result_label :: string
  result_confidence :: real
  result_image_path :: "string option"

datatype content =
    Text phrase
  | PreviewUrls "nat list"
  | Results "classification list"
  | Label string

record message =
  msg_id :: string
  msg_content :: content
  msg_sender :: sender
  msg_type :: message_type
  msg_timestamp :: int
  msg_isProcessing :: bool
  msg_isError :: bool

definition mk_message :: "string \<Rightarrow> content \<Rightarrow> sender \<Rightarrow> message_type \<Rightarrow> int \<Rightarrow> message" where
  "mk_message i c sd ty ts =
     \<lparr>msg_id = i, msg_content = c, msg_sender = sd, msg_type = ty, msg_timestamp = ts,
      msg_isProcessing = False, msg_isError = False\<rparr>"

subsection \<open>Files, clipboard items and requests\<close>

text \<open>\<open>file_data\<close> and \<open>blob_data\<close> identify the bytes of a file or blob.\<close>

record File =
  file_name :: string
  file_type :: string
  file_size :: nat
  file_lastModified :: nat
  file_data :: nat

record Blob =
  blob_type :: string
  blob_size :: nat
  blob_data :: nat

text \<open>
  A clipboard item with what \<open>getAsFile()\<close> returns for it. \<open>item_iso\<close> and \<open>item_now\<close>
  are the clock readings of its loop iteration in \<open>handlePaste\<close>: the ISO string of
  \<open>new Date()\<close> with \<open>:\<close> and \<open>.\<close> replaced by \<open>-\<close>, and the creation time of the file.
\<close>

record clipboard_item =
  item_type :: string
  item_file :: "Blob option"
  item_iso :: string
  item_now :: nat

text \<open>
  The requests the component sends: the files of the multipart form, and the fields
  \<open>label\<close> (absent in the request without a plant), \<open>question\<close> and \<open>session_id\<close>.
\<close>

datatype request =
    POST_classify "File list"
  | POST_qa "string option" string "string option"

text \<open>
  How an awaited \<open>fetch\<close> settles: rejected (\<open>NetworkFailure\<close>); a response that is
  not \<open>ok\<close>; an \<open>ok\<close> response whose \<open>json()\<close> is rejected (\<open>BodyFailure\<close>); an \<open>ok\<close>
  response whose JSON body is \<open>null\<close> (\<open>NullBody\<close>), the one parsed value on which a
  property access throws; or an \<open>ok\<close> response with any other body, given by the field of
  it that the handler reads (\<open>Body\<close>, with \<open>None\<close> when the field is missing).
\<close>

datatype 'a response =
    NetworkFailure string
  | HttpNotOk nat
  | BodyFailure string
  | NullBody
  | Body "'a option"

subsection \<open>Component state\<close>

text \<open>
  The \<open>useState\<close> variables of the component, and the part of the browser it acts on:
  the object URL store (\<open>objectURLs\<close> maps a URL to the bytes it shows), and the log of
  requests sent.
\<close>

record chat =
  messages :: "message list"
  sessionId :: "string option"
  inputMessage :: string
  imageFiles :: "File list"
  imagePreviewUrls :: "nat list"
  isLoading :: bool
  error :: "phrase option"
  uploadProgress :: nat
  classifications :: "classification list"
  showClassificationDialog :: bool
  selectedPlant :: "string option"
  classificationLoading :: bool
  pendingQuestion :: "string option"
  pasteIndicator :: bool
  pasteSuccess :: bool
  pasteError :: "phrase option"
  showPasteHint :: bool
  objectURLs :: "nat \<rightharpoonup> nat"
  nextObjectURL :: nat
  requests :: "request list"

definition initial_chat :: "int \<Rightarrow> chat" where
  "initial_chat mounted =
     \<lparr>messages = [mk_message ''welcome'' (Text TXT_welcome) BOT TEXT mounted],
      sessionId = None, inputMessage = [], imageFiles = [], imagePreviewUrls = [],
      isLoading = False, error = None, uploadProgress = 0, classifications = [],
      showClassificationDialog = False, selectedPlant = None, classificationLoading = False,
      pendingQuestion = None, pasteIndicator = False, pasteSuccess = False, pasteError = None,
      showPasteHint = True, objectURLs = Map.empty, nextObjectURL = 0, requests = []\<rparr>"

subsection \<open>Attached images\<close>

definition createObjectURL :: "nat \<Rightarrow> chat \<Rightarrow> nat \<times> chat" where
  "createObjectURL d s =
     (nextObjectURL s,
      s\<lparr>objectURLs := (objectURLs s)(nextObjectURL s \<mapsto> d), nextObjectURL := Suc (nextObjectURL s)\<rparr>)"

definition revokeObjectURL :: "nat \<Rightarrow> chat \<Rightarrow> chat" where
  "revokeObjectURL u s = s\<lparr>objectURLs := (objectURLs s)(u := None)\<rparr>"

fun createObjectURLs :: "nat list \<Rightarrow> chat \<Rightarrow> nat list \<times> chat" where
  "createObjectURLs [] s = ([], s)"
| "createObjectURLs (d # ds) s =
     (let (u, s1) = createObjectURL d s; (us, s2) = createObjectURLs ds s1 in (u # us, s2))"

text \<open>\<open>prev.filter((_, i) => i !== index)\<close>.\<close>

definition filter_index :: "nat \<Rightarrow> 'a list \<Rightarrow> 'a list" where
  "filter_index index xs = map snd (filter (\<lambda>p. fst p \<noteq> index) (enumerate 0 xs))"

definition handleFileSelect :: "File list \<Rightarrow> chat \<Rightarrow> chat" where
  "handleFileSelect files s =
     (if files = [] then s
      else let validImageFiles = filter (\<lambda>f. startsWith (file_type f) ''image/'') files in
        if validImageFiles = [] then s\<lparr>error := Some TXT_invalid_file\<rparr>
        else let (newPreviewUrls, s1) = createObjectURLs (map file_data validImageFiles) s in
          s1\<lparr>imageFiles := imageFiles s1 @ validImageFiles,
              imagePreviewUrls := imagePreviewUrls s1 @ newPreviewUrls,
              showPasteHint := False\<rparr>)"

text \<open>\<open>removeImage\<close>: revoking \<open>imagePreviewUrls[index]\<close> out of range revokes nothing.\<close>

definition removeImage :: "nat \<Rightarrow> chat \<Rightarrow> chat" where
  "removeImage index s =
     (let s1 = (if index < length (imagePreviewUrls s)
                then revokeObjectURL (imagePreviewUrls s ! index) s else s)
      in s1\<lparr>imageFiles := filter_index index (imageFiles s1),
             imagePreviewUrls := filter_index index (imagePreviewUrls s1)\<rparr>)"

text \<open>
  \<open>clearAllImages c s\<close>: \<open>c\<close> is the state of the render whose closure runs (the URLs it
  revokes are the ones that render saw), \<open>s\<close> the state the updates apply to.
\<close>

definition clearAllImages :: "chat \<Rightarrow> chat \<Rightarrow> chat" where
  "clearAllImages c s =
     (fold revokeObjectURL (imagePreviewUrls c) s)\<lparr>imageFiles := [], imagePreviewUrls := []\<rparr>"

text \<open>\<open>blob.type.split('/')[1] || 'png'\<close>.\<close>

definition extension :: "string \<Rightarrow> string" where
  "extension ty =
     (let e = takeWhile (\<lambda>c. c \<noteq> CHR ''/'') (drop 1 (dropWhile (\<lambda>c. c \<noteq> CHR ''/'') ty))
      in if e = [] then ''png'' else e)"

definition pasted_file :: "clipboard_item \<Rightarrow> Blob \<Rightarrow> File" where
  "pasted_file item b =
     \<lparr>file_name = ''pasted-image-'' @ item_iso item @ ''.'' @ extension (blob_type b),
      file_type = blob_type b, file_size = blob_size b, file_lastModified = item_now item,
      file_data = blob_data b\<rparr>"

text \<open>The loop over the image items: the new files, their URLs, and the browser state.\<close>

fun paste_items :: "clipboard_item list \<Rightarrow> chat \<Rightarrow> File list \<times> nat list \<times> chat" where
  "paste_items [] s = ([], [], s)"
| "paste_items (item # items) s =
     (case item_file item of
        None \<Rightarrow> paste_items items s
      | Some b \<Rightarrow>
          let (u, s1) = createObjectURL (blob_data b) s;
              (fs, us, s2) = paste_items items s1
          in (pasted_file item b # fs, u # us, s2))"

text \<open>
  \<open>handlePaste\<close>: \<open>intoMessageInput\<close> says that the paste goes into the message field;
  \<open>clipboardItems\<close> is \<open>event.clipboardData?.items\<close>. The timers that take the
  success and error indicators down again are left out.
\<close>

definition handlePaste :: "bool \<Rightarrow> clipboard_item list option \<Rightarrow> chat \<Rightarrow> chat" where
  "handlePaste intoMessageInput clipboardItems s =
     (if intoMessageInput then s
      else case clipboardItems of
        None \<Rightarrow> s
      | Some items \<Rightarrow>
          let imageItems = filter (\<lambda>i. startsWith (item_type i) ''image/'') items in
          if imageItems = [] then s
          else
            let s1 = s\<lparr>pasteIndicator := True, pasteError := None, showPasteHint := False\<rparr>;
                (newFiles, newPreviewUrls, s2) = paste_items imageItems s1;
                s3 = (if newFiles \<noteq> []
                      then s2\<lparr>imageFiles := imageFiles s2 @ newFiles,
                              imagePreviewUrls := imagePreviewUrls s2 @ newPreviewUrls,
                              pasteSuccess := True\<rparr>
                      else s2)
            in s3\<lparr>pasteIndicator := False\<rparr>)"


subsection \<open>Handlers\<close>

text \<open>
  A handler is a closure of one render: it reads the state variables of that render
  (the argument \<open>c\<close>) and queues updates, which apply in order to the current state
  (the argument \<open>s\<close>). An \<open>async\<close> handler that awaits a \<open>fetch\<close> is split at the
  \<open>await\<close>: \<open>_begin\<close> runs up to the request, \<open>_resume\<close> runs from the settled request to
  the end. Each \<open>new Date()\<close> and \<open>Date.now()\<close> is an argument.
\<close>

definition append_message :: "message \<Rightarrow> chat \<Rightarrow> chat" where
  "append_message m s = s\<lparr>messages := messages s @ [m]\<rparr>"

text \<open>\<open>setMessages(prev => prev.filter(m => m.id !== `${messageId}_processing`))\<close>.\<close>

definition remove_processing :: "string \<Rightarrow> chat \<Rightarrow> chat" where
  "remove_processing messageId s =
     s\<lparr>messages := filter (\<lambda>m. msg_id m \<noteq> messageId @ ''_processing'') (messages s)\<rparr>"

definition fetch :: "request \<Rightarrow> chat \<Rightarrow> chat" where
  "fetch r s = s\<lparr>requests := requests s @ [r]\<rparr>"

text \<open>The \<open>err.message\<close> of the error a failed classification or question throws.\<close>

fun classify_err_message :: "'a response \<Rightarrow> phrase" where
  "classify_err_message (NetworkFailure m) = Str m"
| "classify_err_message (HttpNotOk status) = TXT_classify_http status"
| "classify_err_message (BodyFailure m) = Str m"
| "classify_err_message NullBody = TXT_type_error"
| "classify_err_message (Body b) = Str []"

fun qa_err_message :: "'a response \<Rightarrow> phrase" where
  "qa_err_message (NetworkFailure m) = Str m"
| "qa_err_message (HttpNotOk status) = TXT_qa_http status"
| "qa_err_message (BodyFailure m) = Str m"
| "qa_err_message NullBody = TXT_type_error"
| "qa_err_message (Body b) = Str []"

text \<open>\<open>handleImageClassification\<close>, up to the \<open>fetch\<close> of \<open>/api/classify\<close>.\<close>

definition handleImageClassification_begin ::
  "chat \<Rightarrow> string \<Rightarrow> string option \<Rightarrow> int \<Rightarrow> chat \<Rightarrow> chat" where
  "handleImageClassification_begin c messageId questionText now s =
     (if length (imageFiles c) = 0 then s
      else
        let s1 = s\<lparr>classificationLoading := True\<rparr>;
            s2 = (if truthy_str questionText then s1\<lparr>pendingQuestion := questionText\<rparr> else s1);
            s3 = append_message
                   ((mk_message (messageId @ ''_processing'')
                       (Text (TXT_processing_images (length (imageFiles c)))) BOT TEXT now)
                    \<lparr>msg_isProcessing := True\<rparr>) s2
        in fetch (POST_classify (imageFiles c)) s3)"

text \<open>
  \<open>handleImageClassification\<close>, from the settled \<open>fetch\<close>: \<open>Body results\<close> is
  \<open>data.results\<close> of a response that is \<open>ok\<close>.
\<close>

definition handleImageClassification_resume ::
  "chat \<Rightarrow> string \<Rightarrow> string option \<Rightarrow> classification list response \<Rightarrow> int \<Rightarrow> int \<Rightarrow> chat \<Rightarrow> chat"
  where
  "handleImageClassification_resume c messageId questionText resp now now2 s =
     (if length (imageFiles c) = 0 then s
      else
        let s' =
          (case resp of
             Body results \<Rightarrow>
               let s1 = remove_processing messageId s in
               (case results of
                  Some (firstResult # rest) \<Rightarrow>
                    if result_label firstResult = OOD_LABEL then
                      (append_message
                         (mk_message (messageId @ ''_ood_response'') (Text TXT_ood) BOT TEXT now) s1)
                      \<lparr>pendingQuestion := None\<rparr>
                    else
                      let s2 = s1\<lparr>classifications := firstResult # rest\<rparr>;
                          s3 = append_message
                                 (mk_message (messageId @ ''_classification_results'')
                                    (Results (firstResult # rest)) BOT CLASSIFICATION now) s2;
                          selectionPrompt = (if truthy_str questionText
                                             then TXT_select_prompt_question else TXT_select_prompt);
                          s4 = append_message
                                 (mk_message (messageId @ ''_selection_prompt'')
                                    (Text selectionPrompt) BOT TEXT now2) s3
                      in s4\<lparr>showClassificationDialog := True\<rparr>
                | _ \<Rightarrow>
                    (append_message
                       (mk_message (messageId @ ''_no_results'') (Text TXT_no_results) BOT TEXT now) s1)
                    \<lparr>pendingQuestion := None\<rparr>)
           | _ \<Rightarrow>
               let s1 = s\<lparr>error := Some (TXT_classify_error (classify_err_message resp))\<rparr>;
                   s2 = remove_processing messageId s1;
                   s3 = append_message
                          ((mk_message (messageId @ ''_error'')
                              (Text (TXT_classify_error (classify_err_message resp))) BOT TEXT now)
                           \<lparr>msg_isError := True\<rparr>) s2
               in s3\<lparr>pendingQuestion := None\<rparr>)
        in s'\<lparr>classificationLoading := False\<rparr>)"

text \<open>
  \<open>handleTextOnlyQuestion\<close>. Both branches send the question to \<open>/api/qa\<close>; the one for
  a selected plant adds its label. \<open>Body answer\<close> is \<open>data.answer\<close>.
\<close>

definition handleTextOnlyQuestion_begin :: "chat \<Rightarrow> string \<Rightarrow> string \<Rightarrow> int \<Rightarrow> chat \<Rightarrow> chat" where
  "handleTextOnlyQuestion_begin c messageId question now s =
     (let s1 = append_message
                 ((mk_message (messageId @ ''_processing'') (Text TXT_processing_question) BOT TEXT now)
                  \<lparr>msg_isProcessing := True\<rparr>) s
      in if truthy_str (selectedPlant c)
         then fetch (POST_qa (selectedPlant c) question (sessionId c)) s1
         else fetch (POST_qa None question (sessionId c)) s1)"

definition answer_message :: "string \<Rightarrow> string option \<Rightarrow> int \<Rightarrow> message" where
  "answer_message messageId answer now =
     mk_message (messageId @ ''_answer'')
       (Text (if truthy_str answer then Str (the answer) else TXT_no_answer)) BOT TEXT now"

text \<open>
  What the three places that settle a question do. The message with the answer is
  built inside the updater passed to \<open>setMessages\<close>, so \<open>data.answer\<close> is read when React
  next renders, outside the \<open>try\<close> of the handler: for a body \<open>null\<close> the updater throws
  there and the component does not render again. That outcome is \<open>None\<close>.
\<close>

definition qa_settled :: "string \<Rightarrow> string response \<Rightarrow> int \<Rightarrow> chat \<Rightarrow> chat option" where
  "qa_settled messageId resp now s =
     (case resp of
        Body answer \<Rightarrow>
          Some (append_message (answer_message messageId answer now) (remove_processing messageId s))
      | NullBody \<Rightarrow> None
      | _ \<Rightarrow>
          Some (append_message
            ((mk_message (messageId @ ''_error'') (Text (TXT_qa_error (qa_err_message resp))) BOT TEXT now)
             \<lparr>msg_isError := True\<rparr>)
            (remove_processing messageId s)))"

definition handleTextOnlyQuestion_resume ::
  "chat \<Rightarrow> string \<Rightarrow> string \<Rightarrow> string response \<Rightarrow> int \<Rightarrow> chat \<Rightarrow> chat option" where
  "handleTextOnlyQuestion_resume c messageId question resp now s =
     (if truthy_str (selectedPlant c) then qa_settled messageId resp now s
      else qa_settled messageId resp now s)"

text \<open>\<open>handleQuestionWithSelectedPlant\<close>.\<close>

definition handleQuestionWithSelectedPlant_begin ::
  "chat \<Rightarrow> string \<Rightarrow> string \<Rightarrow> string \<Rightarrow> int \<Rightarrow> chat \<Rightarrow> chat" where
  "handleQuestionWithSelectedPlant_begin c messageId plantLabel question now s =
     fetch (POST_qa (Some plantLabel) question (sessionId c))
       (append_message
          ((mk_message (messageId @ ''_processing'') (Text TXT_answering_question) BOT TEXT now)
           \<lparr>msg_isProcessing := True\<rparr>) s)"

definition handleQuestionWithSelectedPlant_resume ::
  "chat \<Rightarrow> string \<Rightarrow> string \<Rightarrow> string \<Rightarrow> string response \<Rightarrow> int \<Rightarrow> chat \<Rightarrow> chat option"
  where
  "handleQuestionWithSelectedPlant_resume c messageId plantLabel question resp now s =
     qa_settled messageId resp now s"

text \<open>
  \<open>handlePlantSelection\<close>: the new state and, when a question was pending, the arguments
  of the \<open>handleQuestionWithSelectedPlant\<close> call that \<open>setTimeout\<close> schedules. \<open>now\<close>,
  \<open>now2\<close>, \<open>now3\<close> are its three clock readings.
\<close>

definition handlePlantSelection ::
  "string \<Rightarrow> string \<Rightarrow> int \<Rightarrow> int \<Rightarrow> int \<Rightarrow> chat \<Rightarrow> chat \<times> (string \<times> string \<times> string) option" where
  "handlePlantSelection plantLabel messageId now now2 now3 s =
     (let s1 = s\<lparr>selectedPlant := Some plantLabel\<rparr>;
          s2 = s1\<lparr>showClassificationDialog := False\<rparr>;
          s3 = append_message
                 (mk_message (messageId @ ''_selection'') (Label plantLabel) USER SELECTION now) s2;
          s4 = append_message
                 (mk_message (messageId @ ''_selection_confirmation'')
                    (Text (TXT_selected plantLabel)) BOT TEXT (now2 + 1)) s3
      in if truthy_str (pendingQuestion s)
         then (s4\<lparr>pendingQuestion := None\<rparr>,
               Some (messageId, plantLabel, the (pendingQuestion s)))
         else (append_message
                 (mk_message (messageId @ ''_ask_prompt'')
                    (Text (TXT_ask_prompt plantLabel)) BOT TEXT (now3 + 2)) s4,
               None))"

text \<open>
  \<open>handleSendMessage\<close>. \<open>reset_context\<close> is its block for the text \<open>reset\<close>;
  \<open>messageId\<close> is the string \<open>`msg_${Date.now()}`\<close>, \<open>timestamp\<close> the \<open>new Date()\<close> of the
  user messages, \<open>now\<close> the clock of the processing message.
\<close>

definition reset_context :: "chat \<Rightarrow> chat \<Rightarrow> chat" where
  "reset_context c s =
     (let s1 = s\<lparr>selectedPlant := None\<rparr>;
          s2 = s1\<lparr>pendingQuestion := None\<rparr>;
          s3 = s2\<lparr>classifications := []\<rparr>;
          s4 = s3\<lparr>showClassificationDialog := False\<rparr>
      in if length (imageFiles c) > 0 then clearAllImages c s4 else s4)"

definition userMessages :: "chat \<Rightarrow> string \<Rightarrow> int \<Rightarrow> message list" where
  "userMessages c messageId timestamp =
     (if trim (inputMessage c) \<noteq> []
      then [mk_message (messageId @ ''_text'') (Text (Str (trim (inputMessage c)))) USER TEXT timestamp]
      else [])
     @
     (if length (imageFiles c) > 0
      then [mk_message (messageId @ ''_image'') (PreviewUrls (imagePreviewUrls c)) USER MULTI_IMAGE
              (timestamp + 1)]
      else [])"

definition handleSendMessage_begin :: "string \<Rightarrow> int \<Rightarrow> int \<Rightarrow> chat \<Rightarrow> chat" where
  "handleSendMessage_begin messageId timestamp now s =
     (if trim (inputMessage s) = [] \<and> length (imageFiles s) = 0 then s
      else
        let trimmedMessage = trim (inputMessage s);
            s1 = (if toLowerCase trimmedMessage = ''reset'' then reset_context s s else s);
            s2 = s1\<lparr>messages := messages s1 @ userMessages s messageId timestamp\<rparr>;
            s3 = s2\<lparr>inputMessage := []\<rparr>;
            s4 = s3\<lparr>isLoading := True\<rparr>;
            s5 = s4\<lparr>error := None\<rparr>
        in if length (imageFiles s) > 0 \<and> trim (inputMessage s) = []
           then handleImageClassification_begin s messageId None now s5
           else if length (imageFiles s) > 0 \<and> trim (inputMessage s) \<noteq> []
           then handleImageClassification_begin s messageId (Some (trim (inputMessage s))) now s5
           else handleTextOnlyQuestion_begin s messageId (trim (inputMessage s)) now s5)"

text \<open>The \<open>finally\<close> block of \<open>handleSendMessage\<close>.\<close>

definition handleSendMessage_finally :: "chat \<Rightarrow> chat \<Rightarrow> chat" where
  "handleSendMessage_finally c s =
     (clearAllImages c (s\<lparr>isLoading := False\<rparr>))\<lparr>uploadProgress := 0\<rparr>"

text \<open>
  The rest of \<open>handleSendMessage\<close> once the awaited handler settles, for the submission
  with images and for the submission of text alone. \<open>c\<close> is the state in which
  \<open>handleSendMessage\<close> began.
\<close>

definition handleSendMessage_resume_classification ::
  "chat \<Rightarrow> string \<Rightarrow> classification list response \<Rightarrow> int \<Rightarrow> int \<Rightarrow> chat \<Rightarrow> chat" where
  "handleSendMessage_resume_classification c messageId resp now now2 s =
     handleSendMessage_finally c
       (handleImageClassification_resume c messageId
          (if trim (inputMessage c) = [] then None else Some (trim (inputMessage c)))
          resp now now2 s)"

definition handleSendMessage_resume_question ::
  "chat \<Rightarrow> string \<Rightarrow> string response \<Rightarrow> int \<Rightarrow> chat \<Rightarrow> chat option" where
  "handleSendMessage_resume_question c messageId resp now s =
     map_option (handleSendMessage_finally c)
       (handleTextOnlyQuestion_resume c messageId (trim (inputMessage c)) resp now s)"


section \<open>The request hooks useClassification and useQA\<close>

subsection \<open>generateHash\<close>

text \<open>\<open>Number.prototype.toString(radix)\<close> on an integer.\<close>

definition digit_char :: "nat \<Rightarrow> char" where
  "digit_char d = (if d < 10 then char_of (48 + d) else char_of (87 + d))"

function toString_nat :: "nat \<Rightarrow> nat \<Rightarrow> string" where
  "toString_nat radix n =
     (if radix < 2 \<or> n < radix then [digit_char n]
      else toString_nat radix (n div radix) @ [digit_char (n mod radix)])"
  by pat_completeness auto
termination
  by (relation "measure snd") auto

declare toString_nat.simps [simp del]

definition toString_int :: "nat \<Rightarrow> int \<Rightarrow> string" where
  "toString_int radix i =
     (if i < 0 then CHR ''-'' # toString_nat radix (nat (- i)) else toString_nat radix (nat i))"

text \<open>
  The UTF-16 code units of a string, which \<open>str.length\<close> counts and \<open>charCodeAt\<close>
  reads, from its UTF-8 bytes: a sequence of one, two or three bytes is one unit, a
  sequence of four bytes is a surrogate pair.
\<close>

fun utf16 :: "nat list \<Rightarrow> nat list" where
  "utf16 [] = []"
| "utf16 (a # bs) =
     (if a < 0x80 then a # utf16 bs
      else if a < 0xE0 then
        (case bs of
           b # r \<Rightarrow> ((a - 0xC0) * 64 + (b - 0x80)) # utf16 r
         | [] \<Rightarrow> [])
      else if a < 0xF0 then
        (case bs of
           b # c # r \<Rightarrow> ((a - 0xE0) * 4096 + (b - 0x80) * 64 + (c - 0x80)) # utf16 r
         | _ \<Rightarrow> [])
      else
        (case bs of
           b # c # d # r \<Rightarrow>
             (let v = (a - 0xF0) * 262144 + (b - 0x80) * 4096 + (c - 0x80) * 64 + (d - 0x80)
                      - 0x10000
              in (0xD800 + v div 1024) # (0xDC00 + v mod 1024) # utf16 r)
         | _ \<Rightarrow> []))"

definition codeUnits :: "string \<Rightarrow> nat list" where
  "codeUnits str = utf16 (map of_char str)"

text \<open>
  \<open>generateHash\<close>: the loop keeps \<open>hash\<close> a 32-bit integer (\<open>hash & hash\<close>), so each
  round is \<open>(hash << 5) - hash + char\<close> in 32-bit arithmetic, read as signed at the end.
\<close>

definition generateHash :: "string \<Rightarrow> string" where
  "generateHash str =
     toString_int 16
       (sint (fold (\<lambda>char hash. (push_bit 5 hash - hash) + of_nat char) (codeUnits str)
          (0 :: 32 word)))"

definition createImageHash :: "File \<Rightarrow> string" where
  "createImageHash imageFile =
     generateHash (file_name imageFile @ ''-'' @ toString_nat 10 (file_lastModified imageFile)
                   @ ''-'' @ toString_nat 10 (file_size imageFile))"

subsection \<open>Hook state\<close>

datatype hook_request = Fetch_classify File | Fetch_qa string string

text \<open>The messages of the errors the hooks throw, and the texts they put in \<open>error\<close>.\<close>

datatype hook_message =
    Message string
  | Detail json
  | TypeError_message
  | Not_JSON_message
  | Classification_failed_HTTP nat
  | Failed_to_get_answer_HTTP nat
  | Invalid_classification_response_format
  | Offline_message

datatype hook_error_text =
    No_image_file_provided
  | Both_label_and_question_are_required
  | Error_classifying_image hook_message
  | Error_getting_answer hook_message

datatype thrown = AbortError | Error hook_message

text \<open>
  How a \<open>fetch\<close> of a hook settles: rejected with \<open>AbortError\<close>, rejected with another
  error, or a response with its status and its body as JSON (\<open>None\<close>: not JSON).
\<close>

datatype fetch_outcome =
    Abort
  | Failure string
  | Response nat "json option"

text \<open>
  One hook instance and the browser around it. \<open>hook_result\<close> is \<open>classifications\<close> in
  \<open>useClassification\<close> and \<open>answer\<close> in \<open>useQA\<close>; \<open>hook_loading\<close> and \<open>hook_error\<close>
  are \<open>loading\<close> and \<open>error\<close>. An \<open>AbortController\<close> is a number; \<open>aborted\<close> lists the
  controllers whose \<open>abort()\<close> was called. \<open>network\<close> logs the requests sent, each with
  the controller of its signal.
\<close>

record coordinator =
  hook_result :: json
  hook_loading :: bool
  hook_error :: "hook_error_text option"
  abortControllerRef :: "nat option"
  aborted :: "nat list"
  controllers :: nat
  cacheDB :: idb
  network :: "(hook_request \<times> nat) list"
  onLine :: bool

text \<open>What an \<open>async\<close> function does at the end of a step: return, or wait.\<close>

datatype awaiting = Await_cache | Await_compressImage | Await_fetch nat

datatype step = Return json | Suspend awaiting

text \<open>The block \<open>Cancel any ongoing request\<close>.\<close>

definition cancel_ongoing :: "coordinator \<Rightarrow> coordinator" where
  "cancel_ongoing s =
     (let s1 = (case abortControllerRef s of
                  None \<Rightarrow> s
                | Some a \<Rightarrow> s\<lparr>aborted := a # aborted s\<rparr>)
      in s1\<lparr>abortControllerRef := Some (controllers s1), controllers := Suc (controllers s1)\<rparr>)"

text \<open>
  \<open>fetch(url, {signal: abortControllerRef.current.signal})\<close>: with a signal that is
  aborted already it rejects and sends nothing; otherwise the request is sent.
\<close>

definition hook_fetch :: "hook_request \<Rightarrow> coordinator \<Rightarrow> (thrown + nat) \<times> coordinator" where
  "hook_fetch r s =
     (case abortControllerRef s of
        None \<Rightarrow> (Inl (Error TypeError_message), s)
      | Some sig \<Rightarrow>
          if sig \<in> set (aborted s) then (Inl AbortError, s)
          else (Inr sig, s\<lparr>network := network s @ [(r, sig)]\<rparr>))"

definition response_ok :: "nat \<Rightarrow> bool" where
  "response_ok status = (200 \<le> status \<and> status \<le> 299)"

text \<open>Property access \<open>data.name\<close> on a parsed body; \<open>None\<close> is \<open>undefined\<close>.\<close>

fun property :: "json \<Rightarrow> string \<Rightarrow> thrown + json option" where
  "property JNull name = Inl (Error TypeError_message)"
| "property (JObj kvs) name = Inr (map_of (rev kvs) name)"
| "property v name = Inr None"

text \<open>
  \<open>errorData.detail || fallback\<close> for a response that is not \<open>ok\<close>, where \<open>errorData\<close>
  is the body, or \<open>{}\<close> when the body is not JSON.
\<close>

definition error_detail :: "json option \<Rightarrow> hook_message \<Rightarrow> thrown" where
  "error_detail body fallback =
     (case body of
        None \<Rightarrow> Error fallback
      | Some errorData \<Rightarrow>
          (case property errorData ''detail'' of
             Inl t \<Rightarrow> t
           | Inr None \<Rightarrow> Error fallback
           | Inr (Some d) \<Rightarrow> if truthy d then Error (Detail d) else Error fallback))"

subsection \<open>classifyImage\<close>

text \<open>The \<open>catch\<close> and \<open>finally\<close> blocks of \<open>classifyImage\<close>.\<close>

definition classifyImage_catch :: "thrown \<Rightarrow> coordinator \<Rightarrow> step \<times> coordinator" where
  "classifyImage_catch t s =
     (let s1 = (case t of
                  AbortError \<Rightarrow> s
                | Error m \<Rightarrow> s\<lparr>hook_error := Some (Error_classifying_image m)\<rparr>)
      in (Return JNull, s1\<lparr>hook_loading := False\<rparr>))"

text \<open>From the call to the first \<open>await\<close>.\<close>

definition classifyImage_begin :: "File option \<Rightarrow> coordinator \<Rightarrow> step \<times> coordinator" where
  "classifyImage_begin imageFile s =
     (case imageFile of
        None \<Rightarrow> (Return JNull, s\<lparr>hook_error := Some No_image_file_provided\<rparr>)
      | Some f \<Rightarrow>
          let s1 = s\<lparr>hook_loading := True\<rparr>;
              s2 = s1\<lparr>hook_error := None\<rparr>
          in (Suspend Await_cache, cancel_ongoing s2))"

text \<open>The \<open>fetch\<close> of \<open>/api/classify\<close>.\<close>

definition classifyImage_fetch :: "File \<Rightarrow> coordinator \<Rightarrow> step \<times> coordinator" where
  "classifyImage_fetch processedFile s =
     (case hook_fetch (Fetch_classify processedFile) s of
        (Inl t, s1) \<Rightarrow> classifyImage_catch t s1
      | (Inr sig, s1) \<Rightarrow> (Suspend (Await_fetch sig), s1))"

text \<open>
  From the settled cache lookup, at clock \<open>now\<close>, to the next \<open>await\<close>: a hit returns,
  a miss compresses a file above 1 MB and otherwise sends the request. The \<open>await\<close> of
  \<open>createImageHash\<close> before the lookup is part of the wait for the lookup: nothing of
  the hook is read or written between the two.
\<close>

definition classifyImage_cached :: "int \<Rightarrow> File \<Rightarrow> coordinator \<Rightarrow> step \<times> coordinator" where
  "classifyImage_cached now imageFile s =
     (let imageHash = createImageHash imageFile;
          (cachedClassifications, db) =
             (if imageHash \<noteq> [] then getCachedClassifications now imageHash (cacheDB s)
              else (JNull, cacheDB s));
          s1 = s\<lparr>cacheDB := db\<rparr>
      in if imageHash \<noteq> [] \<and> truthy cachedClassifications
         then (Return cachedClassifications,
               ((s1\<lparr>hook_result := cachedClassifications\<rparr>)\<lparr>hook_loading := False\<rparr>)
                 \<lparr>hook_loading := False\<rparr>)
         else if file_size imageFile > 1024 * 1024 then (Suspend Await_compressImage, s1)
         else classifyImage_fetch imageFile s1)"

text \<open>From the settled \<open>compressImage\<close> (rejected with a message, or the new file).\<close>

definition classifyImage_compressed :: "string + File \<Rightarrow> coordinator \<Rightarrow> step \<times> coordinator" where
  "classifyImage_compressed r s =
     (case r of
        Inl m \<Rightarrow> classifyImage_catch (Error (Message m)) s
      | Inr processedFile \<Rightarrow> classifyImage_fetch processedFile s)"

text \<open>From the settled \<open>fetch\<close> to the end.\<close>

definition classifyImage_fetched ::
  "int \<Rightarrow> File \<Rightarrow> fetch_outcome \<Rightarrow> coordinator \<Rightarrow> step \<times> coordinator" where
  "classifyImage_fetched now imageFile outcome s =
     (case outcome of
        Abort \<Rightarrow> classifyImage_catch AbortError s
      | Failure m \<Rightarrow> classifyImage_catch (Error (Message m)) s
      | Response status body \<Rightarrow>
          if \<not> response_ok status
          then classifyImage_catch (error_detail body (Classification_failed_HTTP status)) s
          else
            (case body of
               None \<Rightarrow> classifyImage_catch (Error Not_JSON_message) s
             | Some data \<Rightarrow>
                 (case property data ''results'' of
                    Inl t \<Rightarrow> classifyImage_catch t s
                  | Inr (Some (JArr results)) \<Rightarrow>
                      let imageHash = createImageHash imageFile;
                          s1 = (if imageHash \<noteq> []
                                then s\<lparr>cacheDB := snd (cacheClassifications now imageHash
                                                          (JArr results) (cacheDB s))\<rparr>
                                else s);
                          s2 = s1\<lparr>hook_result := JArr results\<rparr>
                      in (Return (JArr results), s2\<lparr>hook_loading := False\<rparr>)
                  | Inr other \<Rightarrow>
                      classifyImage_catch (Error Invalid_classification_response_format) s)))"

subsection \<open>askQuestion\<close>

definition askQuestion_catch :: "thrown \<Rightarrow> coordinator \<Rightarrow> step \<times> coordinator" where
  "askQuestion_catch t s =
     (let s1 = (case t of
                  AbortError \<Rightarrow> s
                | Error m \<Rightarrow> s\<lparr>hook_error := Some (Error_getting_answer m)\<rparr>)
      in (Return JNull, s1\<lparr>hook_loading := False\<rparr>))"

definition askQuestion_begin :: "string option \<Rightarrow> string \<Rightarrow> coordinator \<Rightarrow> step \<times> coordinator" where
  "askQuestion_begin label question s =
     (if \<not> truthy_str label \<or> trim question = []
      then (Return JNull, s\<lparr>hook_error := Some Both_label_and_question_are_required\<rparr>)
      else
        let s1 = s\<lparr>hook_loading := True\<rparr>;
            s2 = s1\<lparr>hook_error := None\<rparr>;
            s3 = s2\<lparr>hook_result := JStr []\<rparr>
        in (Suspend Await_cache, cancel_ongoing s3))"

definition questionHash :: "string \<Rightarrow> string \<Rightarrow> string" where
  "questionHash label question = generateHash (label @ ''-'' @ trim question)"

definition askQuestion_cached :: "int \<Rightarrow> string \<Rightarrow> string \<Rightarrow> coordinator \<Rightarrow> step \<times> coordinator" where
  "askQuestion_cached now label question s =
     (let (cachedAnswer, db) = getCachedQAResponse now (questionHash label question) (cacheDB s);
          s1 = s\<lparr>cacheDB := db\<rparr>
      in if truthy cachedAnswer
         then (Return cachedAnswer,
               ((s1\<lparr>hook_result := cachedAnswer\<rparr>)\<lparr>hook_loading := False\<rparr>)\<lparr>hook_loading := False\<rparr>)
         else if \<not> onLine s1 then askQuestion_catch (Error Offline_message) s1
         else (case hook_fetch (Fetch_qa label question) s1 of
                 (Inl t, s2) \<Rightarrow> askQuestion_catch t s2
               | (Inr sig, s2) \<Rightarrow> (Suspend (Await_fetch sig), s2)))"

definition askQuestion_fetched ::
  "int \<Rightarrow> string \<Rightarrow> string \<Rightarrow> fetch_outcome \<Rightarrow> coordinator \<Rightarrow> step \<times> coordinator" where
  "askQuestion_fetched now label question outcome s =
     (case outcome of
        Abort \<Rightarrow> askQuestion_catch AbortError s
      | Failure m \<Rightarrow> askQuestion_catch (Error (Message m)) s
      | Response status body \<Rightarrow>
          if \<not> response_ok status
          then askQuestion_catch (error_detail body (Failed_to_get_answer_HTTP status)) s
          else
            (case body of
               None \<Rightarrow> askQuestion_catch (Error Not_JSON_message) s
             | Some data \<Rightarrow>
                 (case property data ''answer'' of
                    Inl t \<Rightarrow> askQuestion_catch t s
                  | Inr a \<Rightarrow>
                      let answer = (case a of None \<Rightarrow> JNull | Some v \<Rightarrow> v);
                          s1 = s\<lparr>cacheDB := snd (cacheQAResponse now (questionHash label question)
                                                    answer (cacheDB s))\<rparr>;
                          s2 = s1\<lparr>hook_result := answer\<rparr>
                      in (Return answer, s2\<lparr>hook_loading := False\<rparr>))))"


section \<open>Properties and example states\<close>

subsection \<open>Attached images\<close>

text \<open>
  \<open>previews_correspond\<close>: the two arrays have the same length, and the URL at each index
  shows the bytes of the file at that index. \<open>urls_allocated\<close>: the URLs in the array are
  distinct and were handed out by \<open>createObjectURL\<close>.
\<close>

definition previews_correspond :: "chat \<Rightarrow> bool" where
  "previews_correspond s \<longleftrightarrow>
     length (imagePreviewUrls s) = length (imageFiles s) \<and>
     (\<forall>i < length (imageFiles s).
        objectURLs s (imagePreviewUrls s ! i) = Some (file_data (imageFiles s ! i)))"

definition urls_allocated :: "chat \<Rightarrow> bool" where
  "urls_allocated s \<longleftrightarrow>
     distinct (imagePreviewUrls s) \<and> (\<forall>u \<in> set (imagePreviewUrls s). u < nextObjectURL s)"

definition images_inv :: "chat \<Rightarrow> bool" where
  "images_inv s \<longleftrightarrow> previews_correspond s \<and> urls_allocated s"

definition shows_file :: "chat \<Rightarrow> File \<Rightarrow> nat \<Rightarrow> bool" where
  "shows_file s f u \<longleftrightarrow> objectURLs s u = Some (file_data f)"

subsection \<open>The message list\<close>

text \<open>
  \<open>appended old new\<close>: \<open>new\<close> is \<open>old\<close> with messages added at the end.
  \<open>kept_except pid old new\<close>: \<open>new\<close> is \<open>old\<close> without the messages of id \<open>pid\<close>, in
  the same order, with messages added at the end.
\<close>

definition appended :: "message list \<Rightarrow> message list \<Rightarrow> bool" where
  "appended old new \<longleftrightarrow> take (length old) new = old"

definition kept_except :: "string \<Rightarrow> message list \<Rightarrow> message list \<Rightarrow> bool" where
  "kept_except pid old new \<longleftrightarrow>
     take (length (filter (\<lambda>m. msg_id m \<noteq> pid) old)) new = filter (\<lambda>m. msg_id m \<noteq> pid) old"

subsection \<open>Two calls of classifyImage in flight\<close>

text \<open>
  No controller in use is one that has yet to be created.
\<close>

definition controllers_wf :: "coordinator \<Rightarrow> bool" where
  "controllers_wf s \<longleftrightarrow>
     (\<forall>a \<in> set (aborted s). a < controllers s) \<and>
     (\<forall>a. abortControllerRef s = Some a \<longrightarrow> a < controllers s)"


text \<open>
  The steps of a call of \<open>classifyImage\<close> up to its request, as events of the event
  loop: the call itself, its cache lookup settling at a clock value, and, for a file
  above 1 MB, \<open>compressImage\<close> resolving with the processed file. \<open>run\<close> plays a
  sequence of events on the hook. All interleavings of the steps of two calls are the
  \<open>shuffles\<close> of their step lists.
\<close>

datatype hook_event =
    Call File
  | Lookup_settles int File
  | Compress_settles File

definition classifyImage_event :: "hook_event \<Rightarrow> coordinator \<Rightarrow> coordinator" where
  "classifyImage_event e s =
     (case e of
        Call f \<Rightarrow> snd (classifyImage_begin (Some f) s)
      | Lookup_settles now f \<Rightarrow> snd (classifyImage_cached now f s)
      | Compress_settles processedFile \<Rightarrow> snd (classifyImage_compressed (Inr processedFile) s))"

definition run :: "hook_event list \<Rightarrow> coordinator \<Rightarrow> coordinator" where
  "run es s = fold classifyImage_event es s"







text \<open>The controller, the aborted controllers and the number of controllers of a hook.\<close>

definition controller_part :: "coordinator \<Rightarrow> nat option \<times> nat list \<times> nat" where
  "controller_part s = (abortControllerRef s, aborted s, controllers s)"


subsection \<open>Example states\<close>

definition empty_db :: idb where
  "empty_db = \<lparr>idbAvailable = True, stores = (\<lambda>n. Map.empty)\<rparr>"

definition expired_db :: idb where
  "expired_db = \<lparr>idbAvailable = True,
     stores = (\<lambda>n. Map.empty)(CACHE_NAMES_PLANTS := [''all-plants'' \<mapsto>
        \<lparr>record_key = ''all-plants'', record_value = JStr ''Ficus'', record_expiry = 1000\<rparr>])\<rparr>"

definition leaf_jpg :: File where
  "leaf_jpg = \<lparr>file_name = ''leaf.jpg'', file_type = ''image/jpeg'', file_size = 2048,
     file_lastModified = 1000, file_data = 7\<rparr>"

definition ficus :: classification where
  "ficus = \<lparr>result_label = ''Ficus religiosa'', result_confidence = 0.91, result_image_path = None\<rparr>"

definition unknown_plant :: classification where
  "unknown_plant = \<lparr>result_label = OOD_LABEL, result_confidence = 1, result_image_path = None\<rparr>"

definition pasted_png :: clipboard_item where
  "pasted_png = \<lparr>item_type = ''image/png'',
     item_file = Some \<lparr>blob_type = ''image/png'', blob_size = 512, blob_data = 9\<rparr>,
     item_iso = ''2026-01-01T00-00-00-000Z'', item_now = 3000\<rparr>"

text \<open>A plant is selected and the user has typed \<open>reset\<close>.\<close>

definition reset_example :: chat where
  "reset_example = (initial_chat 0)
     \<lparr>sessionId := Some ''session-1'', inputMessage := ''reset'',
      selectedPlant := Some ''Ficus religiosa''\<rparr>"

text \<open>No plant is selected and the user has typed \<open>reset\<close>.\<close>

definition reset_fresh_example :: chat where
  "reset_fresh_example = (initial_chat 0)
     \<lparr>sessionId := Some ''session-1'', inputMessage := ''reset''\<rparr>"

text \<open>
  A plant is selected, questions are pending and the dialog is open, and the user has
  typed \<open>Reset\<close> with a space before it and a no-break space after it.
\<close>

definition reset_nbsp_example :: chat where
  "reset_nbsp_example = (initial_chat 0)
     \<lparr>sessionId := Some ''session-1'', inputMessage := '' Reset'' @ [CHR 0xC2, CHR 0xA0],
      classifications := [ficus], showClassificationDialog := True,
      selectedPlant := Some ''Ficus religiosa'', pendingQuestion := Some ''How tall is it?''\<rparr>"

text \<open>The user has typed a question; then it is sent.\<close>

definition question_example :: chat where
  "question_example = (initial_chat 0)
     \<lparr>sessionId := Some ''session-1'', inputMessage := ''What is it?''\<rparr>"

definition question_example_sent :: chat where
  "question_example_sent = handleSendMessage_begin ''msg_1000'' 1000 1000 question_example"

text \<open>One image is attached; then it is sent; then the classification arrives.\<close>

definition image_example :: chat where
  "image_example = (initial_chat 0)
     \<lparr>sessionId := Some ''session-1'', imageFiles := [leaf_jpg], imagePreviewUrls := [0],
      objectURLs := [0 \<mapsto> 7], nextObjectURL := 1\<rparr>"

definition image_example_sent :: chat where
  "image_example_sent = handleSendMessage_begin ''msg_1000'' 1000 1000 image_example"

definition image_example_classified :: chat where
  "image_example_classified =
     handleSendMessage_resume_classification image_example ''msg_1000'' (Body (Some [ficus]))
       2000 2000 image_example_sent"

text \<open>A question is pending when the plant is chosen.\<close>

definition pending_example :: chat where
  "pending_example = (initial_chat 0)
     \<lparr>sessionId := Some ''session-1'', classifications := [ficus],
      showClassificationDialog := True, pendingQuestion := Some ''How to recognise it?''\<rparr>"

definition idle_hook :: coordinator where
  "idle_hook = \<lparr>hook_result = JArr [], hook_loading = False, hook_error = None,
     abortControllerRef = None, aborted = [], controllers = 0, cacheDB = empty_db,
     network = [], onLine = True\<rparr>"

text \<open>
  The request of a first call is in flight on controller 0 when a second call begins
  and aborts it.
\<close>

definition superseded_hook :: coordinator where
  "superseded_hook =
     snd (classifyImage_begin (Some leaf_jpg)
       (snd (classifyImage_cached 1000 leaf_jpg
         (snd (classifyImage_begin (Some leaf_jpg) idle_hook)))))"

text \<open>
  A second call begins, and aborts controller 0 of the first, before the cache lookup
  of the first has settled; then that lookup settles.
\<close>

definition superseded_in_lookup :: coordinator where
  "superseded_in_lookup =
     snd (classifyImage_cached 1000 leaf_jpg
       (snd (classifyImage_begin (Some leaf_jpg)
         (snd (classifyImage_begin (Some leaf_jpg) idle_hook)))))"

definition fig_results :: json where
  "fig_results = JArr [JObj [(''label'', JStr ''Ficus religiosa'')]]"

section \<open>The cache\<close>

lemma toUpperCase_CACHE_NAMES:
  "toUpperCase CACHE_NAMES_PLANTS = ''PLANTS-DATA-CACHE''"
  "toUpperCase CACHE_NAMES_CLASSIFICATIONS = ''CLASSIFICATIONS-CACHE''"
  "toUpperCase CACHE_NAMES_QA = ''QA-RESPONSES-CACHE''"
  by code_simp+

text \<open>
  The expiry table is indexed by the upper-cased store name, which is none of its
  keys: the default expiry time of every store is \<open>undefined\<close>.
\<close>

lemma CACHE_EXPIRY_of_store_name:
  assumes "cacheName \<in> set CACHE_NAMES_values"
  shows "CACHE_EXPIRY (toUpperCase cacheName) = None"
  using assms by (auto simp: CACHE_NAMES_values_def toUpperCase_CACHE_NAMES CACHE_EXPIRY_def)

lemma transaction_store [simp]:
  "cacheName \<in> set CACHE_NAMES_values \<Longrightarrow> transaction cacheName = Inr ()"
  by (simp add: transaction_def)

lemma setCache_stores:
  assumes "idbAvailable s" and "cacheName \<in> set CACHE_NAMES_values"
  shows "setCache now cacheName k v expiryTime s =
     (Some True, s\<lparr>stores := (stores s)(cacheName := (stores s cacheName)(k \<mapsto>
        \<lparr>record_key = k, record_value = v, record_expiry = now + num_or expiryTime 0\<rparr>))\<rparr>)"
  using assms by (simp add: setCache_def openDatabase_def CACHE_EXPIRY_of_store_name num_or_def)

lemma getCache_found:
  assumes "idbAvailable s" and "cacheName \<in> set CACHE_NAMES_values"
    and "stores s cacheName k = Some r"
  shows "getCache now cacheName k s =
     (if record_expiry r > now then (record_value r, s)
      else (JNull, s\<lparr>stores := (stores s)(cacheName := (stores s cacheName)(k := None))\<rparr>))"
  using assms by (simp add: getCache_def openDatabase_def)

lemma getCache_missing:
  assumes "stores s cacheName k = None"
  shows "getCache now cacheName k s = (JNull, s)"
  using assms by (simp add: getCache_def openDatabase_def split: sum.splits)

text \<open>
  With an expiry time passed to \<open>setCache\<close>, a value is read back until it expires, and
  a later write replaces the record.
\<close>

lemma setCache_getCache_override:
  assumes "idbAvailable s" and "cacheName \<in> set CACHE_NAMES_values"
    and "ttl \<noteq> 0" and "t1 < t0 + ttl"
  shows "fst (getCache t1 cacheName k (snd (setCache t0 cacheName k v (Some ttl) s))) = v"
  using assms by (simp add: setCache_stores getCache_found num_or_def)

lemma setCache_overwrites:
  assumes "idbAvailable s" and "cacheName \<in> set CACHE_NAMES_values"
  shows "stores (snd (setCache t1 cacheName k v1 e1 (snd (setCache t0 cacheName k v0 e0 s)))) cacheName k
     = Some \<lparr>record_key = k, record_value = v1, record_expiry = t1 + num_or e1 0\<rparr>"
  using assms by (simp add: setCache_stores)

text \<open>
  Without an expiry time the record expires at the clock value of the write, so no
  later read returns it.
\<close>

lemma default_write_never_read_back:
  assumes "idbAvailable s" and "cacheName \<in> set CACHE_NAMES_values" and "t0 \<le> t1"
  shows "fst (getCache t1 cacheName k (snd (setCache t0 cacheName k v None s))) = JNull"
  using assms by (simp add: setCache_stores getCache_found num_or_def)

text \<open>The sweep deletes the records with \<open>expiry \<le> now\<close> and keeps the others.\<close>

lemma clearExpiredCache_store:
  assumes "idbAvailable s" and "cacheName \<in> set CACHE_NAMES_values"
  shows "stores (clearExpiredCache now s) cacheName k =
     (case stores s cacheName k of None \<Rightarrow> None
      | Some r \<Rightarrow> if record_expiry r \<le> now then None else Some r)"
  using assms
  by (auto simp: clearExpiredCache_def openDatabase_def CACHE_NAMES_values_def sweep_store_def
        CACHE_NAMES_PLANTS_def CACHE_NAMES_CLASSIFICATIONS_def CACHE_NAMES_QA_def)

text \<open>
  Claim C1. A value written by \<open>setCache\<close> is returned unchanged by \<open>getCache\<close> called
  right after with the same store and key. The code does not do this: the exported
  functions write without an expiry time, the record gets \<open>expiry = Date.now()\<close>, and
  the read at the same clock value finds it expired and returns \<open>null\<close>.
\<close>

theorem cachePlantsData_not_read_back:
  "fst (getCachedPlantsData 1000
      (snd (cachePlantsData 1000 (JArr [JStr ''Ficus religiosa'']) empty_db))) = JNull"
  by (simp add: getCachedPlantsData_def cachePlantsData_def setCache_stores getCache_found
      empty_db_def CACHE_NAMES_values_def num_or_def)

text \<open>
  Claim C2. A write without an expiry time stores \<open>expiry = now +\<close> the default of the
  store (24 hours, 30 minutes, 1 hour). The code stores \<open>expiry = now\<close> in all three
  stores: \<open>CACHE_EXPIRY[cacheName.toUpperCase()]\<close> is \<open>undefined\<close> for each store name.
\<close>

theorem default_expiry_is_now:
  "stores (snd (cachePlantsData 1000 (JArr [JStr ''Ficus religiosa'']) empty_db))
      CACHE_NAMES_PLANTS ''all-plants''
     = Some \<lparr>record_key = ''all-plants'', record_value = JArr [JStr ''Ficus religiosa''],
             record_expiry = 1000\<rparr>
   \<and> stores (snd (cacheClassifications 1000 ''17862'' (JArr []) empty_db))
      CACHE_NAMES_CLASSIFICATIONS ''17862''
     = Some \<lparr>record_key = ''17862'', record_value = JArr [], record_expiry = 1000\<rparr>
   \<and> stores (snd (cacheQAResponse 1000 ''17862'' (JStr ''An answer'') empty_db))
      CACHE_NAMES_QA ''17862''
     = Some \<lparr>record_key = ''17862'', record_value = JStr ''An answer'', record_expiry = 1000\<rparr>"
  by (simp add: cachePlantsData_def cacheClassifications_def cacheQAResponse_def setCache_stores
      empty_db_def CACHE_NAMES_values_def num_or_def)

text \<open>
  Claim C3. Once \<open>now \<ge> expiry\<close>, \<open>getCache\<close> does not return the value of the record:
  it returns \<open>null\<close> and deletes the record, and the next \<open>getCache\<close> for the key, at any
  clock value, returns \<open>null\<close> again and finds no record.
\<close>

theorem getCache_expired_absent:
  assumes "idbAvailable s" and "cacheName \<in> set CACHE_NAMES_values"
    and "stores s cacheName k = Some r" and "record_expiry r \<le> now"
  shows "fst (getCache now cacheName k s) = JNull \<and>
         stores (snd (getCache now cacheName k s)) cacheName k = None \<and>
         fst (getCache now' cacheName k (snd (getCache now cacheName k s))) = JNull \<and>
         stores (snd (getCache now' cacheName k (snd (getCache now cacheName k s)))) cacheName k = None"
proof -
  let ?s' = "s\<lparr>stores := (stores s)(cacheName := (stores s cacheName)(k := None))\<rparr>"
  have first: "getCache now cacheName k s = (JNull, ?s')"
    using assms by (simp add: getCache_found)
  have gone: "stores ?s' cacheName k = None"
    by simp
  have second: "getCache now' cacheName k ?s' = (JNull, ?s')"
    using gone by (rule getCache_missing)
  show ?thesis
    by (simp add: first second)
qed

text \<open>The claim at the instant of expiry, \<open>now = expiry = 1000\<close>, and one millisecond on.\<close>

theorem getCache_expired_absent_witness:
  "idbAvailable expired_db \<and> CACHE_NAMES_PLANTS \<in> set CACHE_NAMES_values \<and>
   stores expired_db CACHE_NAMES_PLANTS ''all-plants'' =
     Some \<lparr>record_key = ''all-plants'', record_value = JStr ''Ficus'', record_expiry = 1000\<rparr> \<and>
   (1000::int) \<le> 1000 \<and>
   fst (getCache 1000 CACHE_NAMES_PLANTS ''all-plants'' expired_db) = JNull \<and>
   stores (snd (getCache 1000 CACHE_NAMES_PLANTS ''all-plants'' expired_db))
      CACHE_NAMES_PLANTS ''all-plants'' = None \<and>
   fst (getCache 1001 CACHE_NAMES_PLANTS ''all-plants''
      (snd (getCache 1000 CACHE_NAMES_PLANTS ''all-plants'' expired_db))) = JNull"
proof -
  have h: "idbAvailable expired_db" "CACHE_NAMES_PLANTS \<in> set CACHE_NAMES_values"
    "stores expired_db CACHE_NAMES_PLANTS ''all-plants'' =
       Some \<lparr>record_key = ''all-plants'', record_value = JStr ''Ficus'', record_expiry = 1000\<rparr>"
    by (simp_all add: expired_db_def CACHE_NAMES_values_def)
  have e: "record_expiry
      \<lparr>record_key = ''all-plants'', record_value = JStr ''Ficus'', record_expiry = 1000\<rparr> \<le> 1000"
    by simp
  show ?thesis
    using h getCache_expired_absent [OF h e, of 1001] by simp
qed

section \<open>Attached images\<close>

lemma previews_correspond_all2:
  "previews_correspond s \<longleftrightarrow> list_all2 (shows_file s) (imageFiles s) (imagePreviewUrls s)"
  by (auto simp: previews_correspond_def list_all2_conv_all_nth shows_file_def)

lemma filter_index_enumerate_above:
  "i < n \<Longrightarrow> map snd (filter (\<lambda>p. fst p \<noteq> i) (enumerate n xs)) = xs"
  by (induction xs arbitrary: n) auto

lemma filter_index_enumerate:
  "n \<le> i \<Longrightarrow> map snd (filter (\<lambda>p. fst p \<noteq> i) (enumerate n xs))
     = take (i - n) xs @ drop (Suc (i - n)) xs"
proof (induction xs arbitrary: n)
  case Nil
  then show ?case by simp
next
  case (Cons x xs)
  show ?case
  proof (cases "n = i")
    case True
    then show ?thesis by (simp add: filter_index_enumerate_above)
  next
    case False
    with Cons.prems have lt: "Suc n \<le> i" by simp
    have "i - n = Suc (i - Suc n)" using lt by simp
    then show ?thesis using Cons.IH [OF lt] False by simp
  qed
qed

lemma filter_index_take_drop: "filter_index i xs = take i xs @ drop (Suc i) xs"
  using filter_index_enumerate [of 0 i xs] by (simp add: filter_index_def)

lemma nth_not_in_rest:
  assumes "distinct xs" and "i < length xs"
  shows "xs ! i \<notin> set (take i xs @ drop (Suc i) xs)" and "distinct (take i xs @ drop (Suc i) xs)"
proof -
  have "distinct (take i xs @ xs ! i # drop (Suc i) xs)"
    using assms id_take_nth_drop [of i xs] by simp
  then show "xs ! i \<notin> set (take i xs @ drop (Suc i) xs)"
    and "distinct (take i xs @ drop (Suc i) xs)" by auto
qed

lemma set_take_drop_subset: "set (take i xs @ drop (Suc i) xs) \<subseteq> set xs"
  by (auto dest: in_set_takeD in_set_dropD)

lemma createObjectURLs_alloc:
  "createObjectURLs ds s = (us, s') \<Longrightarrow>
     list_all2 (\<lambda>d u. objectURLs s' u = Some d) ds us \<and> distinct us \<and>
     (\<forall>u \<in> set us. nextObjectURL s \<le> u \<and> u < nextObjectURL s') \<and>
     nextObjectURL s \<le> nextObjectURL s' \<and>
     (\<forall>u. u < nextObjectURL s \<longrightarrow> objectURLs s' u = objectURLs s u) \<and>
     imageFiles s' = imageFiles s \<and> imagePreviewUrls s' = imagePreviewUrls s"
proof (induction ds arbitrary: s us s')
  case Nil
  then show ?case by simp
next
  case (Cons d ds)
  obtain us2 s2 where rec: "createObjectURLs ds (snd (createObjectURL d s)) = (us2, s2)"
    by (cases "createObjectURLs ds (snd (createObjectURL d s))")
  have us: "us = nextObjectURL s # us2" and s': "s' = s2"
    using Cons.prems rec by (auto simp: createObjectURL_def)
  note ih = Cons.IH [OF rec]
  have s1: "nextObjectURL (snd (createObjectURL d s)) = Suc (nextObjectURL s)"
    "objectURLs (snd (createObjectURL d s)) = (objectURLs s)(nextObjectURL s \<mapsto> d)"
    "imageFiles (snd (createObjectURL d s)) = imageFiles s"
    "imagePreviewUrls (snd (createObjectURL d s)) = imagePreviewUrls s"
    by (simp_all add: createObjectURL_def)
  have here: "objectURLs s2 (nextObjectURL s) = Some d"
    using ih s1 by simp
  show ?case
    unfolding us s' using ih here s1 by auto
qed

lemma paste_items_alloc:
  "paste_items items s = (fs, us, s') \<Longrightarrow>
     list_all2 (shows_file s') fs us \<and> distinct us \<and>
     (\<forall>u \<in> set us. nextObjectURL s \<le> u \<and> u < nextObjectURL s') \<and>
     nextObjectURL s \<le> nextObjectURL s' \<and>
     (\<forall>u. u < nextObjectURL s \<longrightarrow> objectURLs s' u = objectURLs s u) \<and>
     imageFiles s' = imageFiles s \<and> imagePreviewUrls s' = imagePreviewUrls s"
proof (induction items arbitrary: s fs us s')
  case Nil
  then show ?case by simp
next
  case (Cons item items)
  show ?case
  proof (cases "item_file item")
    case None
    then show ?thesis using Cons by simp
  next
    case (Some b)
    obtain fs2 us2 s2 where rec:
      "paste_items items (snd (createObjectURL (blob_data b) s)) = (fs2, us2, s2)"
      by (cases "paste_items items (snd (createObjectURL (blob_data b) s))")
    have res: "fs = pasted_file item b # fs2" "us = nextObjectURL s # us2" "s' = s2"
      using Cons.prems rec Some by (auto simp: createObjectURL_def)
    note ih = Cons.IH [OF rec]
    have s1: "nextObjectURL (snd (createObjectURL (blob_data b) s)) = Suc (nextObjectURL s)"
      "objectURLs (snd (createObjectURL (blob_data b) s)) = (objectURLs s)(nextObjectURL s \<mapsto> blob_data b)"
      "imageFiles (snd (createObjectURL (blob_data b) s)) = imageFiles s"
      "imagePreviewUrls (snd (createObjectURL (blob_data b) s)) = imagePreviewUrls s"
      by (simp_all add: createObjectURL_def)
    have here: "shows_file s2 (pasted_file item b) (nextObjectURL s)"
      using ih s1 by (simp add: shows_file_def pasted_file_def)
    show ?thesis
      unfolding res using ih here s1 by auto
  qed
qed

lemma images_inv_appended:
  assumes inv: "images_inv s"
    and new: "list_all2 (shows_file s') fs us" "distinct us"
      "\<forall>u \<in> set us. nextObjectURL s \<le> u \<and> u < nextObjectURL s'"
      "nextObjectURL s \<le> nextObjectURL s'"
      "\<forall>u. u < nextObjectURL s \<longrightarrow> objectURLs s' u = objectURLs s u"
    and t: "imageFiles t = imageFiles s @ fs" "imagePreviewUrls t = imagePreviewUrls s @ us"
      "objectURLs t = objectURLs s'" "nextObjectURL t = nextObjectURL s'"
  shows "images_inv t"
proof -
  have old: "list_all2 (shows_file s) (imageFiles s) (imagePreviewUrls s)"
    and d: "distinct (imagePreviewUrls s)" and b: "\<forall>u \<in> set (imagePreviewUrls s). u < nextObjectURL s"
    using inv by (simp_all add: images_inv_def previews_correspond_all2 urls_allocated_def)
  have "list_all2 (shows_file s') (imageFiles s) (imagePreviewUrls s)"
    using old
  proof (rule list.rel_mono_strong)
    fix f u assume "u \<in> set (imagePreviewUrls s)" and "shows_file s f u"
    then show "shows_file s' f u" using b new(5) by (simp add: shows_file_def)
  qed
  then have "list_all2 (shows_file s') (imageFiles s @ fs) (imagePreviewUrls s @ us)"
    using new(1) by (rule list_all2_appendI)
  then have c: "previews_correspond t"
    using t by (simp add: previews_correspond_all2 shows_file_def [abs_def])
  have "distinct (imagePreviewUrls s @ us)"
    using d new(2,3) b by fastforce
  moreover have "\<forall>u \<in> set (imagePreviewUrls s @ us). u < nextObjectURL s'"
    using b new(3,4) by fastforce
  ultimately have "urls_allocated t"
    using t by (simp add: urls_allocated_def)
  with c show ?thesis by (simp add: images_inv_def)
qed

lemma images_inv_frame:
  assumes "images_inv s" and "imageFiles t = imageFiles s" and "imagePreviewUrls t = imagePreviewUrls s"
    and "objectURLs t = objectURLs s" and "nextObjectURL t = nextObjectURL s"
  shows "images_inv t"
  using assms by (simp add: images_inv_def previews_correspond_def urls_allocated_def)

lemma images_inv_handleFileSelect:
  assumes "images_inv s" shows "images_inv (handleFileSelect files s)"
proof -
  let ?valid = "filter (\<lambda>f. startsWith (file_type f) ''image/'') files"
  show ?thesis
  proof (cases "files = [] \<or> ?valid = []")
    case True
    then show ?thesis
      using assms by (auto simp: handleFileSelect_def Let_def intro: images_inv_frame [OF assms])
  next
    case False
    obtain us s1 where c: "createObjectURLs (map file_data ?valid) s = (us, s1)"
      by (cases "createObjectURLs (map file_data ?valid) s")
    note a = createObjectURLs_alloc [OF c]
    have eq: "handleFileSelect files s =
        s1\<lparr>imageFiles := imageFiles s1 @ ?valid, imagePreviewUrls := imagePreviewUrls s1 @ us,
           showPasteHint := False\<rparr>"
      using False c by (simp add: handleFileSelect_def Let_def)
    have l: "list_all2 (shows_file s1) ?valid us"
      using a by (simp add: list_all2_map1 shows_file_def [abs_def])
    show ?thesis
      unfolding eq
      by (rule images_inv_appended [OF assms l]) (use a in simp_all)
  qed
qed

lemma images_inv_handlePaste:
  assumes "images_inv s" shows "images_inv (handlePaste intoMessageInput clipboardItems s)"
proof (cases "intoMessageInput")
  case True
  then show ?thesis using assms by (simp add: handlePaste_def)
next
  case False
  show ?thesis
  proof (cases clipboardItems)
    case None
    then show ?thesis using assms by (simp add: handlePaste_def)
  next
    case (Some items)
    let ?imageItems = "filter (\<lambda>i. startsWith (item_type i) ''image/'') items"
    let ?s1 = "s\<lparr>pasteIndicator := True, pasteError := None, showPasteHint := False\<rparr>"
    show ?thesis
    proof (cases "?imageItems = []")
      case True
      then show ?thesis using assms Some by (simp add: handlePaste_def)
    next
      case ne: False
      obtain fs us s2 where p: "paste_items ?imageItems ?s1 = (fs, us, s2)"
        by (cases "paste_items ?imageItems ?s1") auto
      note a = paste_items_alloc [OF p]
      have inv1: "images_inv ?s1"
        by (rule images_inv_frame [OF assms]) simp_all
      show ?thesis
      proof (cases "fs = []")
        case True
        then have us: "us = []" using a by simp
        have eq: "handlePaste intoMessageInput clipboardItems s = s2\<lparr>pasteIndicator := False\<rparr>"
          using False Some ne p True by (simp add: handlePaste_def Let_def)
        show ?thesis
          unfolding eq
          by (rule images_inv_appended [OF inv1, where s' = s2 and fs = "[]" and us = "[]"])
             (use a in simp_all)
      next
        case nf: False
        have eq: "handlePaste intoMessageInput clipboardItems s =
           s2\<lparr>imageFiles := imageFiles s2 @ fs, imagePreviewUrls := imagePreviewUrls s2 @ us,
              pasteSuccess := True, pasteIndicator := False\<rparr>"
          using False Some ne p nf by (simp add: handlePaste_def Let_def)
        show ?thesis
          unfolding eq
          by (rule images_inv_appended [OF inv1, where s' = s2 and fs = fs and us = us])
             (use a in simp_all)
      qed
    qed
  qed
qed

lemma images_inv_removeImage:
  assumes "images_inv s" shows "images_inv (removeImage index s)"
proof -
  have old: "list_all2 (shows_file s) (imageFiles s) (imagePreviewUrls s)"
    and d: "distinct (imagePreviewUrls s)" and b: "\<forall>u \<in> set (imagePreviewUrls s). u < nextObjectURL s"
    using assms by (simp_all add: images_inv_def previews_correspond_all2 urls_allocated_def)
  let ?fs = "take index (imageFiles s) @ drop (Suc index) (imageFiles s)"
  let ?us = "take index (imagePreviewUrls s) @ drop (Suc index) (imagePreviewUrls s)"
  have kept: "list_all2 (shows_file s) ?fs ?us"
    using old by (intro list_all2_appendI list_all2_takeI list_all2_dropI)
  have sub: "set ?us \<subseteq> set (imagePreviewUrls s)"
    by (rule set_take_drop_subset)
  show ?thesis
  proof (cases "index < length (imagePreviewUrls s)")
    case True
    let ?t = "removeImage index s"
    have t: "imageFiles ?t = ?fs" "imagePreviewUrls ?t = ?us"
      "objectURLs ?t = (objectURLs s)(imagePreviewUrls s ! index := None)"
      "nextObjectURL ?t = nextObjectURL s"
      using True by (simp_all add: removeImage_def Let_def revokeObjectURL_def filter_index_take_drop)
    note n = nth_not_in_rest [OF d True]
    have "list_all2 (shows_file ?t) ?fs ?us"
      using kept
    proof (rule list.rel_mono_strong)
      fix f u assume "u \<in> set ?us" and "shows_file s f u"
      then show "shows_file ?t f u" using n(1) t(3) by (auto simp: shows_file_def)
    qed
    then have "previews_correspond ?t"
      using t by (simp add: previews_correspond_all2)
    moreover have "urls_allocated ?t"
      using t n(2) b sub by (auto simp: urls_allocated_def)
    ultimately show ?thesis by (simp add: images_inv_def)
  next
    case False
    then have "length (imageFiles s) \<le> index"
      using old by (simp add: list_all2_lengthD)
    with False have "imageFiles (removeImage index s) = imageFiles s"
      "imagePreviewUrls (removeImage index s) = imagePreviewUrls s"
      "objectURLs (removeImage index s) = objectURLs s"
      "nextObjectURL (removeImage index s) = nextObjectURL s"
      by (simp_all add: removeImage_def Let_def filter_index_take_drop)
    then show ?thesis by (rule images_inv_frame [OF assms])
  qed
qed

lemma images_inv_clearAllImages: "images_inv (clearAllImages c s)"
  by (simp add: clearAllImages_def images_inv_def previews_correspond_def urls_allocated_def)

lemma images_inv_initial: "images_inv (initial_chat mounted)"
  by (simp add: initial_chat_def images_inv_def previews_correspond_def urls_allocated_def)

lemma images_inv_handleSendMessage_finally: "images_inv (handleSendMessage_finally c s)"
  by (simp add: handleSendMessage_finally_def clearAllImages_def images_inv_def
      previews_correspond_def urls_allocated_def)

lemma handleImageClassification_begin_images:
  "imageFiles (handleImageClassification_begin c messageId q now s) = imageFiles s"
  "imagePreviewUrls (handleImageClassification_begin c messageId q now s) = imagePreviewUrls s"
  "objectURLs (handleImageClassification_begin c messageId q now s) = objectURLs s"
  "nextObjectURL (handleImageClassification_begin c messageId q now s) = nextObjectURL s"
  by (simp_all add: handleImageClassification_begin_def append_message_def fetch_def Let_def)

lemma handleTextOnlyQuestion_begin_images:
  "imageFiles (handleTextOnlyQuestion_begin c messageId q now s) = imageFiles s"
  "imagePreviewUrls (handleTextOnlyQuestion_begin c messageId q now s) = imagePreviewUrls s"
  "objectURLs (handleTextOnlyQuestion_begin c messageId q now s) = objectURLs s"
  "nextObjectURL (handleTextOnlyQuestion_begin c messageId q now s) = nextObjectURL s"
  by (simp_all add: handleTextOnlyQuestion_begin_def append_message_def fetch_def Let_def)

lemma images_inv_reset_context:
  assumes "images_inv s" shows "images_inv (reset_context s s)"
proof (cases "length (imageFiles s) > 0")
  case True
  then show ?thesis
    by (simp add: reset_context_def clearAllImages_def images_inv_def previews_correspond_def
        urls_allocated_def)
next
  case False
  then show ?thesis
    by (auto simp: reset_context_def intro: images_inv_frame [OF assms])
qed

lemma images_inv_handleImageClassification_begin:
  assumes "images_inv x" shows "images_inv (handleImageClassification_begin c messageId q now x)"
  by (rule images_inv_frame [OF assms]) (simp_all add: handleImageClassification_begin_images)

lemma images_inv_handleTextOnlyQuestion_begin:
  assumes "images_inv x" shows "images_inv (handleTextOnlyQuestion_begin c messageId q now x)"
  by (rule images_inv_frame [OF assms]) (simp_all add: handleTextOnlyQuestion_begin_images)

lemma images_inv_submitted:
  assumes "images_inv x"
  shows "images_inv (x\<lparr>messages := ms, inputMessage := i, isLoading := l, error := e\<rparr>)"
  by (rule images_inv_frame [OF assms]) simp_all

lemma images_inv_handleSendMessage_begin:
  assumes "images_inv s" shows "images_inv (handleSendMessage_begin messageId timestamp now s)"
  using assms
  by (auto simp: handleSendMessage_begin_def Let_def
      intro!: images_inv_handleImageClassification_begin images_inv_handleTextOnlyQuestion_begin
        images_inv_submitted images_inv_reset_context)

text \<open>
  Claim C10. \<open>imageFiles\<close> and \<open>imagePreviewUrls\<close> always have the same length, and the
  URL at index \<open>i\<close> shows the file at index \<open>i\<close>: this holds in the initial state, and
  file selection, clipboard paste, removal of one image, clearing all images and the
  sending of a message keep it.
\<close>

theorem attached_images_correspond:
  assumes "images_inv s"
  shows "images_inv (initial_chat mounted)
       \<and> images_inv (handleFileSelect files s)
       \<and> images_inv (handlePaste intoMessageInput clipboardItems s)
       \<and> images_inv (removeImage index s)
       \<and> images_inv (clearAllImages c s)
       \<and> images_inv (handleSendMessage_begin messageId timestamp now s)
       \<and> images_inv (handleSendMessage_finally c s)
       \<and> length (imagePreviewUrls s) = length (imageFiles s)
       \<and> (\<forall>i < length (imageFiles s).
            objectURLs s (imagePreviewUrls s ! i) = Some (file_data (imageFiles s ! i)))"
  using assms images_inv_initial images_inv_handleFileSelect images_inv_handlePaste
    images_inv_removeImage images_inv_clearAllImages images_inv_handleSendMessage_begin
    images_inv_handleSendMessage_finally
  by (simp add: images_inv_def previews_correspond_def)

lemma image_example_inv: "images_inv image_example"
  by (simp add: image_example_def initial_chat_def images_inv_def previews_correspond_def
      urls_allocated_def leaf_jpg_def)

theorem attached_images_correspond_witness:
  "images_inv image_example
   \<and> images_inv (handleFileSelect [leaf_jpg] image_example)
   \<and> images_inv (handlePaste False (Some [pasted_png]) image_example)
   \<and> images_inv (removeImage 0 image_example)
   \<and> images_inv (clearAllImages image_example image_example)
   \<and> imageFiles (handlePaste False (Some [pasted_png]) image_example)
        = [leaf_jpg, pasted_file pasted_png \<lparr>blob_type = ''image/png'', blob_size = 512, blob_data = 9\<rparr>]
   \<and> imagePreviewUrls (handlePaste False (Some [pasted_png]) image_example) = [0, 1]
   \<and> imageFiles (removeImage 0 (handlePaste False (Some [pasted_png]) image_example))
        = [pasted_file pasted_png \<lparr>blob_type = ''image/png'', blob_size = 512, blob_data = 9\<rparr>]
   \<and> imagePreviewUrls (removeImage 0 (handlePaste False (Some [pasted_png]) image_example)) = [1]"
proof -
  have p: "handlePaste False (Some [pasted_png]) image_example =
     image_example\<lparr>pasteIndicator := False, pasteError := None, showPasteHint := False,
       objectURLs := [0 \<mapsto> 7, 1 \<mapsto> 9], nextObjectURL := 2,
       imageFiles := [leaf_jpg, pasted_file pasted_png
          \<lparr>blob_type = ''image/png'', blob_size = 512, blob_data = 9\<rparr>],
       imagePreviewUrls := [0, 1], pasteSuccess := True\<rparr>"
    by (simp add: handlePaste_def pasted_png_def startsWith_def createObjectURL_def
        image_example_def initial_chat_def)
  have pf: "imageFiles (handlePaste False (Some [pasted_png]) image_example)
        = [leaf_jpg, pasted_file pasted_png \<lparr>blob_type = ''image/png'', blob_size = 512, blob_data = 9\<rparr>]"
    "imagePreviewUrls (handlePaste False (Some [pasted_png]) image_example) = [0, 1]"
    by (simp_all add: p)
  have r: "imageFiles (removeImage 0 (handlePaste False (Some [pasted_png]) image_example))
        = [pasted_file pasted_png \<lparr>blob_type = ''image/png'', blob_size = 512, blob_data = 9\<rparr>]"
    "imagePreviewUrls (removeImage 0 (handlePaste False (Some [pasted_png]) image_example)) = [1]"
    by (simp_all add: p removeImage_def revokeObjectURL_def filter_index_take_drop Let_def)
  note t = attached_images_correspond [OF image_example_inv, where files = "[leaf_jpg]"
      and intoMessageInput = False and clipboardItems = "Some [pasted_png]" and index = 0
      and c = image_example and mounted = 0 and messageId = "''msg_1000''" and timestamp = 1000
      and now = 1000]
  show ?thesis
    using image_example_inv t pf r by blast
qed

section \<open>The conversation\<close>

lemma fold_revokeObjectURL:
  "fold revokeObjectURL us s = s\<lparr>objectURLs := fold (\<lambda>u m. m(u := None)) us (objectURLs s)\<rparr>"
  by (induction us arbitrary: s) (simp_all add: revokeObjectURL_def)

lemma clearAllImages_eq:
  "clearAllImages c s =
     s\<lparr>objectURLs := fold (\<lambda>u m. m(u := None)) (imagePreviewUrls c) (objectURLs s),
       imageFiles := [], imagePreviewUrls := []\<rparr>"
  by (simp add: clearAllImages_def fold_revokeObjectURL)

lemmas handler_defs =
  append_message_def remove_processing_def fetch_def clearAllImages_eq reset_context_def
  handleSendMessage_finally_def

subsection \<open>Strings\<close>

lemma stripStart_Nil: "stripStart ws [] = []"
proof -
  have "find (\<lambda>w. w \<noteq> [] \<and> take (length w) [] = w) ws = None"
    by (auto simp: find_None_iff)
  then show ?thesis
    by (subst stripStart.simps) simp
qed

lemma trim_Nil [simp]: "trim [] = []"
  by (simp add: trim_def stripStart_Nil)

lemma toLowerCase_Nil [simp]: "toLowerCase [] = []"
  by (simp add: toLowerCase.simps)

lemma trim_examples [simp]:
  "trim ''reset'' = ''reset''"
  "trim ('' Reset'' @ [CHR 0xC2, CHR 0xA0]) = ''Reset''"
  "trim ''What is it?'' = ''What is it?''"
  by code_simp+

lemma toLowerCase_examples [simp]:
  "toLowerCase ''reset'' = ''reset''"
  "toLowerCase ''Reset'' = ''reset''"
  "toLowerCase ''What is it?'' \<noteq> ''reset''"
  by code_simp+

subsection \<open>Reset\<close>

lemma reset_begin_text_only:
  assumes "toLowerCase (trim (inputMessage s)) = ''reset''" and "imageFiles s = []"
  shows "handleSendMessage_begin messageId timestamp now s =
    s\<lparr>selectedPlant := None, pendingQuestion := None, classifications := [],
      showClassificationDialog := False,
      messages := messages s @
        [mk_message (messageId @ ''_text'') (Text (Str (trim (inputMessage s)))) USER TEXT timestamp,
         (mk_message (messageId @ ''_processing'') (Text TXT_processing_question) BOT TEXT now)
           \<lparr>msg_isProcessing := True\<rparr>],
      inputMessage := [], isLoading := True, error := None,
      requests := requests s @
        [POST_qa (if truthy_str (selectedPlant s) then selectedPlant s else None)
           (trim (inputMessage s)) (sessionId s)]\<rparr>"
proof -
  have ne: "trim (inputMessage s) \<noteq> []"
    using assms(1) by auto
  show ?thesis
    using assms ne
    by (simp add: handleSendMessage_begin_def handleTextOnlyQuestion_begin_def handler_defs
        userMessages_def Let_def)
qed

text \<open>
  A settled question leaves a state unless the body is \<open>null\<close>; it changes the message
  list and the images only.
\<close>

lemma qa_settled_Some:
  assumes "resp \<noteq> NullBody"
  shows "\<exists>e. qa_settled messageId resp now x = Some e
       \<and> e = x\<lparr>messages := messages e\<rparr>
       \<and> kept_except (messageId @ ''_processing'') (messages x) (messages e)"
  using assms
  by (cases resp) (simp_all add: qa_settled_def handler_defs kept_except_def)

lemma resume_question_Some:
  assumes "resp \<noteq> NullBody"
  shows "\<exists>e. handleSendMessage_resume_question c messageId resp now x = Some e
       \<and> selectedPlant e = selectedPlant x \<and> pendingQuestion e = pendingQuestion x
       \<and> classifications e = classifications x
       \<and> showClassificationDialog e = showClassificationDialog x
       \<and> imageFiles e = [] \<and> imagePreviewUrls e = []
       \<and> kept_except (messageId @ ''_processing'') (messages x) (messages e)"
proof -
  from qa_settled_Some [OF assms] obtain q where q: "qa_settled messageId resp now x = Some q"
    "q = x\<lparr>messages := messages q\<rparr>"
    "kept_except (messageId @ ''_processing'') (messages x) (messages q)"
    by blast
  have "handleSendMessage_resume_question c messageId resp now x = Some (handleSendMessage_finally c q)"
    by (simp add: handleSendMessage_resume_question_def handleTextOnlyQuestion_resume_def q(1))
  moreover have "selectedPlant q = selectedPlant x" "pendingQuestion q = pendingQuestion x"
    "classifications q = classifications x" "showClassificationDialog q = showClassificationDialog x"
    by (subst q(2), simp)+
  ultimately show ?thesis
    using q(3) by (simp add: handler_defs)
qed

text \<open>
  An \<open>ok\<close> answer of \<open>/api/qa\<close> with the JSON body \<open>null\<close> ends the component: the
  updater that builds the answer message throws when React renders.
\<close>

lemma null_answer_ends_component:
  "handleSendMessage_resume_question c messageId NullBody now x = None"
  "handleQuestionWithSelectedPlant_resume c messageId plantLabel question NullBody now x = None"
  by (simp_all add: handleSendMessage_resume_question_def handleTextOnlyQuestion_resume_def
      handleQuestionWithSelectedPlant_resume_def qa_settled_def)

text \<open>
  Claim C4, as the code has it. When the trimmed text is \<open>reset\<close> in any letter case
  and no image is attached, \<open>handleSendMessage\<close> clears the selected plant, the pending
  question, the classifications and the dialog, and then goes on with the same
  submission as with any other text: the text is shown as a user message and sent to
  \<open>/api/qa\<close> as a question. When that request settles, in any way but with the JSON body
  \<open>null\<close>, the selected plant, the pending question, the classifications, the dialog and
  the images are clear.
\<close>

theorem reset_clears_then_submits:
  assumes "toLowerCase (trim (inputMessage s)) = ''reset''" and "imageFiles s = []"
  shows "selectedPlant (handleSendMessage_begin messageId timestamp now s) = None
       \<and> pendingQuestion (handleSendMessage_begin messageId timestamp now s) = None
       \<and> classifications (handleSendMessage_begin messageId timestamp now s) = []
       \<and> \<not> showClassificationDialog (handleSendMessage_begin messageId timestamp now s)
       \<and> messages (handleSendMessage_begin messageId timestamp now s) = messages s @
           [mk_message (messageId @ ''_text'') (Text (Str (trim (inputMessage s)))) USER TEXT
              timestamp,
            (mk_message (messageId @ ''_processing'') (Text TXT_processing_question) BOT TEXT now)
              \<lparr>msg_isProcessing := True\<rparr>]
       \<and> (\<exists>label. requests (handleSendMessage_begin messageId timestamp now s) = requests s @
              [POST_qa label (trim (inputMessage s)) (sessionId s)])
       \<and> (resp \<noteq> NullBody \<longrightarrow>
            (\<exists>e. handleSendMessage_resume_question s messageId resp now2
                    (handleSendMessage_begin messageId timestamp now s) = Some e
                \<and> selectedPlant e = None \<and> pendingQuestion e = None \<and> classifications e = []
                \<and> \<not> showClassificationDialog e \<and> imageFiles e = [] \<and> imagePreviewUrls e = []))"
proof -
  let ?b = "handleSendMessage_begin messageId timestamp now s"
  note b = reset_begin_text_only [OF assms, of messageId timestamp now]
  have f: "selectedPlant ?b = None" "pendingQuestion ?b = None" "classifications ?b = []"
    "\<not> showClassificationDialog ?b"
    by (simp_all add: b)
  have m: "messages ?b = messages s @
           [mk_message (messageId @ ''_text'') (Text (Str (trim (inputMessage s)))) USER TEXT
              timestamp,
            (mk_message (messageId @ ''_processing'') (Text TXT_processing_question) BOT TEXT now)
              \<lparr>msg_isProcessing := True\<rparr>]"
    by (simp add: b)
  have r: "\<exists>label. requests ?b = requests s @ [POST_qa label (trim (inputMessage s)) (sessionId s)]"
    by (simp add: b)
  have e: "\<exists>e. handleSendMessage_resume_question s messageId resp now2 ?b = Some e
        \<and> selectedPlant e = None \<and> pendingQuestion e = None \<and> classifications e = []
        \<and> \<not> showClassificationDialog e \<and> imageFiles e = [] \<and> imagePreviewUrls e = []"
    if "resp \<noteq> NullBody"
    using resume_question_Some [OF that, of s messageId now2 ?b] f by auto
  show ?thesis
    using f m r e by blast
qed

text \<open>
  A plant is selected, a question is pending, the dialog is open, no image is attached,
  and the user sends \<open>Reset\<close> with a space before it and a no-break space after it.
\<close>

theorem reset_clears_then_submits_witness:
  "toLowerCase (trim (inputMessage reset_nbsp_example)) = ''reset''
   \<and> imageFiles reset_nbsp_example = []
   \<and> Body (Some ''ok'') \<noteq> (NullBody :: string response)
   \<and> selectedPlant reset_nbsp_example = Some ''Ficus religiosa''
   \<and> pendingQuestion reset_nbsp_example = Some ''How tall is it?''
   \<and> selectedPlant (handleSendMessage_begin ''msg_1000'' 1000 1000 reset_nbsp_example) = None
   \<and> pendingQuestion (handleSendMessage_begin ''msg_1000'' 1000 1000 reset_nbsp_example) = None
   \<and> classifications (handleSendMessage_begin ''msg_1000'' 1000 1000 reset_nbsp_example) = []
   \<and> \<not> showClassificationDialog (handleSendMessage_begin ''msg_1000'' 1000 1000 reset_nbsp_example)
   \<and> (\<exists>label. requests (handleSendMessage_begin ''msg_1000'' 1000 1000 reset_nbsp_example)
         = [POST_qa label ''Reset'' (Some ''session-1'')])
   \<and> (\<exists>e. handleSendMessage_resume_question reset_nbsp_example ''msg_1000'' (Body (Some ''ok'')) 2000
            (handleSendMessage_begin ''msg_1000'' 1000 1000 reset_nbsp_example) = Some e
         \<and> selectedPlant e = None \<and> pendingQuestion e = None \<and> classifications e = []
         \<and> \<not> showClassificationDialog e \<and> imageFiles e = [] \<and> imagePreviewUrls e = [])"
proof -
  have v: "inputMessage reset_nbsp_example = '' Reset'' @ [CHR 0xC2, CHR 0xA0]"
    "requests reset_nbsp_example = []" "sessionId reset_nbsp_example = Some ''session-1''"
    "selectedPlant reset_nbsp_example = Some ''Ficus religiosa''"
    "pendingQuestion reset_nbsp_example = Some ''How tall is it?''"
    by (simp_all add: reset_nbsp_example_def initial_chat_def)
  have t: "trim (inputMessage reset_nbsp_example) = ''Reset''"
    unfolding v(1) by (rule trim_examples)
  have h1: "toLowerCase (trim (inputMessage reset_nbsp_example)) = ''reset''"
    unfolding t by (rule toLowerCase_examples)
  have h2: "imageFiles reset_nbsp_example = []"
    by (simp add: reset_nbsp_example_def initial_chat_def)
  have h3: "Body (Some ''ok'') \<noteq> (NullBody :: string response)"
    by simp
  note c = reset_clears_then_submits [OF h1 h2, where messageId = "''msg_1000''"
      and timestamp = 1000 and now = 1000 and resp = "Body (Some ''ok'')" and ?now2.0 = 2000]
  from c have r: "\<exists>label. requests (handleSendMessage_begin ''msg_1000'' 1000 1000 reset_nbsp_example)
         = [POST_qa label ''Reset'' (Some ''session-1'')]"
    unfolding t v(2,3) by simp
  show ?thesis
    using h1 h2 h3 v(4,5) c r by blast
qed

text \<open>
  Claim C4, as stated, fails: the text \<open>reset\<close> is also handled as a question. With no
  image attached, \<open>handleSendMessage\<close> sends it to \<open>/api/qa\<close>.
\<close>

theorem reset_sent_as_question:
  "requests (handleSendMessage_begin ''msg_1000'' 1000 1000 reset_fresh_example)
     = [POST_qa None ''reset'' (Some ''session-1'')]"
  by (simp add: reset_begin_text_only reset_fresh_example_def initial_chat_def truthy_str_def)

text \<open>
  With an image attached, the text \<open>reset\<close> takes the path of any text sent with an
  image: the handler reads the \<open>imageFiles\<close> of its render, not the cleared state, so
  the image is classified and the text becomes the pending question. With a plant
  selected and no image, the request carries the label of the plant that the same
  handler has just cleared.
\<close>

lemma reset_with_image_becomes_pending_question:
  "pendingQuestion (handleSendMessage_begin ''msg_1000'' 1000 1000
      (image_example\<lparr>inputMessage := ''reset''\<rparr>)) = Some ''reset''
   \<and> requests (handleSendMessage_begin ''msg_1000'' 1000 1000
      (image_example\<lparr>inputMessage := ''reset''\<rparr>)) = [POST_classify [leaf_jpg]]"
  by (simp add: handleSendMessage_begin_def handleImageClassification_begin_def handler_defs
      userMessages_def Let_def image_example_def initial_chat_def truthy_str_def)

lemma reset_after_selection_sends_old_label:
  "requests (handleSendMessage_begin ''msg_1000'' 1000 1000 reset_example)
     = [POST_qa (Some ''Ficus religiosa'') ''reset'' (Some ''session-1'')]"
  by (simp add: reset_begin_text_only reset_example_def initial_chat_def truthy_str_def)

subsection \<open>Plant selection\<close>

lemma handlePlantSelection_pending:
  assumes "pendingQuestion s = Some q" and "q \<noteq> []"
  shows "handlePlantSelection plantLabel messageId now now2 now3 s =
     (s\<lparr>selectedPlant := Some plantLabel, showClassificationDialog := False,
        messages := messages s @
          [mk_message (messageId @ ''_selection'') (Label plantLabel) USER SELECTION now,
           mk_message (messageId @ ''_selection_confirmation'') (Text (TXT_selected plantLabel))
             BOT TEXT (now2 + 1)],
        pendingQuestion := None\<rparr>,
      Some (messageId, plantLabel, q))"
  using assms by (simp add: handlePlantSelection_def handler_defs truthy_str_def)

lemma handlePlantSelection_no_pending:
  assumes "\<not> truthy_str (pendingQuestion s)"
  shows "handlePlantSelection plantLabel messageId now now2 now3 s =
     (s\<lparr>selectedPlant := Some plantLabel, showClassificationDialog := False,
        messages := messages s @
          [mk_message (messageId @ ''_selection'') (Label plantLabel) USER SELECTION now,
           mk_message (messageId @ ''_selection_confirmation'') (Text (TXT_selected plantLabel))
             BOT TEXT (now2 + 1),
           mk_message (messageId @ ''_ask_prompt'') (Text (TXT_ask_prompt plantLabel))
             BOT TEXT (now3 + 2)]\<rparr>,
      None)"
  using assms by (simp add: handlePlantSelection_def handler_defs)

text \<open>
  Claim C7. \<open>handlePlantSelection\<close> sets the selected plant to the label and appends the
  selection and its confirmation. With a question pending it clears the pending
  question and schedules \<open>handleQuestionWithSelectedPlant\<close> with that question and the
  label, which sends them to \<open>/api/qa\<close>; a further selection then schedules nothing.
  With no question pending it appends the prompt to ask one, and sends nothing.
\<close>

theorem selection_consumes_pending_question:
  "selectedPlant (fst (handlePlantSelection plantLabel messageId now now2 now3 s)) = Some plantLabel
   \<and> take (length (messages s) + 2)
        (messages (fst (handlePlantSelection plantLabel messageId now now2 now3 s)))
      = messages s @
          [mk_message (messageId @ ''_selection'') (Label plantLabel) USER SELECTION now,
           mk_message (messageId @ ''_selection_confirmation'') (Text (TXT_selected plantLabel))
             BOT TEXT (now2 + 1)]
   \<and> requests (fst (handlePlantSelection plantLabel messageId now now2 now3 s)) = requests s
   \<and> (pendingQuestion s = Some q \<and> q \<noteq> [] \<longrightarrow>
        snd (handlePlantSelection plantLabel messageId now now2 now3 s)
          = Some (messageId, plantLabel, q)
      \<and> pendingQuestion (fst (handlePlantSelection plantLabel messageId now now2 now3 s)) = None
      \<and> length (messages (fst (handlePlantSelection plantLabel messageId now now2 now3 s)))
          = length (messages s) + 2
      \<and> requests (handleQuestionWithSelectedPlant_begin s messageId plantLabel q now4 x)
          = requests x @ [POST_qa (Some plantLabel) q (sessionId s)]
      \<and> snd (handlePlantSelection plantLabel' messageId' now5 now6 now7
               (fst (handlePlantSelection plantLabel messageId now now2 now3 s))) = None)
   \<and> (\<not> truthy_str (pendingQuestion s) \<longrightarrow>
        snd (handlePlantSelection plantLabel messageId now now2 now3 s) = None
      \<and> messages (fst (handlePlantSelection plantLabel messageId now now2 now3 s))
          = messages s @
              [mk_message (messageId @ ''_selection'') (Label plantLabel) USER SELECTION now,
               mk_message (messageId @ ''_selection_confirmation'') (Text (TXT_selected plantLabel))
                 BOT TEXT (now2 + 1),
               mk_message (messageId @ ''_ask_prompt'') (Text (TXT_ask_prompt plantLabel))
                 BOT TEXT (now3 + 2)])"
proof (cases "truthy_str (pendingQuestion s)")
  case True
  then obtain p where p: "pendingQuestion s = Some p" "p \<noteq> []"
    by (auto simp: truthy_str_def split: option.splits)
  note e = handlePlantSelection_pending [OF p]
  have again: "snd (handlePlantSelection plantLabel' messageId' now5 now6 now7
      (fst (handlePlantSelection plantLabel messageId now now2 now3 s))) = None"
    by (simp add: e handlePlantSelection_no_pending truthy_str_def)
  have req: "requests (handleQuestionWithSelectedPlant_begin s messageId plantLabel q now4 x)
      = requests x @ [POST_qa (Some plantLabel) q (sessionId s)]"
    by (simp add: handleQuestionWithSelectedPlant_begin_def handler_defs)
  show ?thesis
    using True p again req by (simp add: e)
next
  case False
  show ?thesis
    using False by (auto simp: handlePlantSelection_no_pending truthy_str_def)
qed

text \<open>
  The plant is chosen with \<open>How to recognise it?\<close> pending, and chosen in the initial
  state, where nothing is pending.
\<close>

theorem selection_consumes_pending_question_witness:
  "pendingQuestion pending_example = Some ''How to recognise it?'' \<and> ''How to recognise it?'' \<noteq> []
   \<and> snd (handlePlantSelection ''Ficus religiosa'' ''dialog_3000'' 3000 3000 3000 pending_example)
       = Some (''dialog_3000'', ''Ficus religiosa'', ''How to recognise it?'')
   \<and> pendingQuestion
       (fst (handlePlantSelection ''Ficus religiosa'' ''dialog_3000'' 3000 3000 3000 pending_example))
       = None
   \<and> requests (handleQuestionWithSelectedPlant_begin pending_example ''dialog_3000''
         ''Ficus religiosa'' ''How to recognise it?'' 3100
         (fst (handlePlantSelection ''Ficus religiosa'' ''dialog_3000'' 3000 3000 3000 pending_example)))
       = [POST_qa (Some ''Ficus religiosa'') ''How to recognise it?'' (Some ''session-1'')]
   \<and> \<not> truthy_str (pendingQuestion (initial_chat 0))
   \<and> snd (handlePlantSelection ''Ficus religiosa'' ''dialog_3000'' 3000 3000 3000 (initial_chat 0))
       = None
   \<and> map msg_id (messages
        (fst (handlePlantSelection ''Ficus religiosa'' ''dialog_3000'' 3000 3000 3000 (initial_chat 0))))
       = [''welcome'', ''dialog_3000_selection'', ''dialog_3000_selection_confirmation'',
          ''dialog_3000_ask_prompt'']"
proof -
  have h1: "pendingQuestion pending_example = Some ''How to recognise it?'' \<and> ''How to recognise it?'' \<noteq> []"
    by (simp add: pending_example_def)
  have h2: "\<not> truthy_str (pendingQuestion (initial_chat 0))"
    by (simp add: initial_chat_def truthy_str_def)
  note a = selection_consumes_pending_question [where s = pending_example
      and plantLabel = "''Ficus religiosa''" and messageId = "''dialog_3000''" and now = 3000
      and ?now2.0 = 3000 and ?now3.0 = 3000 and q = "''How to recognise it?''" and ?now4.0 = 3100
      and x = "fst (handlePlantSelection ''Ficus religiosa'' ''dialog_3000'' 3000 3000 3000 pending_example)"]
  note b = selection_consumes_pending_question [where s = "initial_chat 0"
      and plantLabel = "''Ficus religiosa''" and messageId = "''dialog_3000''" and now = 3000
      and ?now2.0 = 3000 and ?now3.0 = 3000]
  have r: "requests pending_example = []" "sessionId pending_example = Some ''session-1''"
    by (simp_all add: pending_example_def initial_chat_def)
  have m: "map msg_id (messages (initial_chat 0)) = [''welcome'']"
    by (simp add: initial_chat_def mk_message_def)
  from b h2 have "messages
        (fst (handlePlantSelection ''Ficus religiosa'' ''dialog_3000'' 3000 3000 3000 (initial_chat 0)))
      = messages (initial_chat 0) @
          [mk_message (''dialog_3000'' @ ''_selection'') (Label ''Ficus religiosa'') USER SELECTION 3000,
           mk_message (''dialog_3000'' @ ''_selection_confirmation'')
             (Text (TXT_selected ''Ficus religiosa'')) BOT TEXT (3000 + 1),
           mk_message (''dialog_3000'' @ ''_ask_prompt'') (Text (TXT_ask_prompt ''Ficus religiosa''))
             BOT TEXT (3000 + 2)]"
    by blast
  then have ids: "map msg_id (messages
        (fst (handlePlantSelection ''Ficus religiosa'' ''dialog_3000'' 3000 3000 3000 (initial_chat 0))))
       = [''welcome'', ''dialog_3000_selection'', ''dialog_3000_selection_confirmation'',
          ''dialog_3000_ask_prompt'']"
    by (simp add: m mk_message_def)
  from a h1 have pend: "snd (handlePlantSelection ''Ficus religiosa'' ''dialog_3000'' 3000 3000 3000 pending_example)
       = Some (''dialog_3000'', ''Ficus religiosa'', ''How to recognise it?'')"
    "pendingQuestion
       (fst (handlePlantSelection ''Ficus religiosa'' ''dialog_3000'' 3000 3000 3000 pending_example))
       = None"
    "requests (handleQuestionWithSelectedPlant_begin pending_example ''dialog_3000''
         ''Ficus religiosa'' ''How to recognise it?'' 3100
         (fst (handlePlantSelection ''Ficus religiosa'' ''dialog_3000'' 3000 3000 3000 pending_example)))
       = requests (fst (handlePlantSelection ''Ficus religiosa'' ''dialog_3000'' 3000 3000 3000 pending_example))
         @ [POST_qa (Some ''Ficus religiosa'') ''How to recognise it?'' (sessionId pending_example)]"
    by blast+
  from a have "requests (fst (handlePlantSelection ''Ficus religiosa'' ''dialog_3000'' 3000 3000 3000 pending_example))
      = requests pending_example"
    by blast
  with pend(3) r have req: "requests (handleQuestionWithSelectedPlant_begin pending_example ''dialog_3000''
         ''Ficus religiosa'' ''How to recognise it?'' 3100
         (fst (handlePlantSelection ''Ficus religiosa'' ''dialog_3000'' 3000 3000 3000 pending_example)))
       = [POST_qa (Some ''Ficus religiosa'') ''How to recognise it?'' (Some ''session-1'')]"
    by simp
  from b h2 have none: "snd (handlePlantSelection ''Ficus religiosa'' ''dialog_3000'' 3000 3000 3000 (initial_chat 0)) = None"
    by blast
  show ?thesis
    using h1 h2 pend(1,2) req none ids by blast
qed

subsection \<open>A plant outside the database\<close>

text \<open>
  Claim C8. When the label of the first result is the out-of-database label, the
  handler removes the processing message, appends the explanatory Bot text, clears the
  pending question, and neither opens the selection dialog nor stores or shows the
  classification results. The \<open>finally\<close> block of \<open>handleSendMessage\<close> changes none of this.
\<close>

theorem ood_result_opens_no_selection:
  assumes "imageFiles c \<noteq> []" and "result_label firstResult = OOD_LABEL"
  shows "messages (handleImageClassification_resume c messageId questionText
                     (Body (Some (firstResult # rest))) now now2 s)
           = filter (\<lambda>m. msg_id m \<noteq> messageId @ ''_processing'') (messages s)
             @ [mk_message (messageId @ ''_ood_response'') (Text TXT_ood) BOT TEXT now]
       \<and> pendingQuestion (handleImageClassification_resume c messageId questionText
                     (Body (Some (firstResult # rest))) now now2 s) = None
       \<and> showClassificationDialog (handleImageClassification_resume c messageId questionText
                     (Body (Some (firstResult # rest))) now now2 s) = showClassificationDialog s
       \<and> classifications (handleImageClassification_resume c messageId questionText
                     (Body (Some (firstResult # rest))) now now2 s) = classifications s
       \<and> messages (handleSendMessage_resume_classification c messageId
                     (Body (Some (firstResult # rest))) now now2 s)
           = filter (\<lambda>m. msg_id m \<noteq> messageId @ ''_processing'') (messages s)
             @ [mk_message (messageId @ ''_ood_response'') (Text TXT_ood) BOT TEXT now]
       \<and> pendingQuestion (handleSendMessage_resume_classification c messageId
                     (Body (Some (firstResult # rest))) now now2 s) = None
       \<and> showClassificationDialog (handleSendMessage_resume_classification c messageId
                     (Body (Some (firstResult # rest))) now now2 s) = showClassificationDialog s
       \<and> classifications (handleSendMessage_resume_classification c messageId
                     (Body (Some (firstResult # rest))) now now2 s) = classifications s"
  using assms
  by (simp add: handleSendMessage_resume_classification_def handleImageClassification_resume_def
      handler_defs)

lemma image_example_sent_eq:
  "image_example_sent = image_example
     \<lparr>messages := messages image_example @
        [mk_message ''msg_1000_image'' (PreviewUrls [0]) USER MULTI_IMAGE 1001,
         (mk_message ''msg_1000_processing'' (Text (TXT_processing_images 1)) BOT TEXT 1000)
           \<lparr>msg_isProcessing := True\<rparr>],
      inputMessage := [], isLoading := True, error := None, classificationLoading := True,
      requests := [POST_classify [leaf_jpg]]\<rparr>"
  by (simp add: image_example_sent_def handleSendMessage_begin_def
      handleImageClassification_begin_def handler_defs userMessages_def Let_def
      image_example_def initial_chat_def truthy_str_def)

text \<open>
  An image is sent with a question, and the answer of \<open>/api/classify\<close> names the
  out-of-database label first: the dialog stays closed and the question is dropped.
\<close>

theorem ood_result_opens_no_selection_witness:
  "imageFiles image_example \<noteq> [] \<and> result_label unknown_plant = OOD_LABEL
   \<and> map msg_id (messages (handleImageClassification_resume image_example ''msg_1000''
        (Some ''What is it?'') (Body (Some [unknown_plant])) 2000 2000
        (image_example_sent\<lparr>pendingQuestion := Some ''What is it?''\<rparr>)))
      = [''welcome'', ''msg_1000_image'', ''msg_1000_ood_response'']
   \<and> pendingQuestion (handleImageClassification_resume image_example ''msg_1000''
        (Some ''What is it?'') (Body (Some [unknown_plant])) 2000 2000
        (image_example_sent\<lparr>pendingQuestion := Some ''What is it?''\<rparr>)) = None
   \<and> showClassificationDialog (handleImageClassification_resume image_example ''msg_1000''
        (Some ''What is it?'') (Body (Some [unknown_plant])) 2000 2000
        (image_example_sent\<lparr>pendingQuestion := Some ''What is it?''\<rparr>)) = False
   \<and> classifications (handleImageClassification_resume image_example ''msg_1000''
        (Some ''What is it?'') (Body (Some [unknown_plant])) 2000 2000
        (image_example_sent\<lparr>pendingQuestion := Some ''What is it?''\<rparr>)) = []"
proof -
  have h1: "imageFiles image_example \<noteq> []"
    by (simp add: image_example_def)
  have h2: "result_label unknown_plant = OOD_LABEL"
    by (simp add: unknown_plant_def)
  let ?s = "image_example_sent\<lparr>pendingQuestion := Some ''What is it?''\<rparr>"
  have v: "map msg_id (filter (\<lambda>m. msg_id m \<noteq> ''msg_1000'' @ ''_processing'') (messages ?s))
      = [''welcome'', ''msg_1000_image'']"
    "showClassificationDialog ?s = False" "classifications ?s = []"
    by (simp_all add: image_example_sent_eq image_example_def initial_chat_def mk_message_def)
  note t = ood_result_opens_no_selection [OF h1 h2, where messageId = "''msg_1000''"
      and questionText = "Some ''What is it?''" and rest = "[]" and now = 2000 and ?now2.0 = 2000
      and s = ?s]
  from t have ms: "messages (handleImageClassification_resume image_example ''msg_1000''
        (Some ''What is it?'') (Body (Some [unknown_plant])) 2000 2000 ?s)
      = filter (\<lambda>m. msg_id m \<noteq> ''msg_1000'' @ ''_processing'') (messages ?s)
         @ [mk_message (''msg_1000'' @ ''_ood_response'') (Text TXT_ood) BOT TEXT 2000]"
    by blast
  have ids: "map msg_id (messages (handleImageClassification_resume image_example ''msg_1000''
        (Some ''What is it?'') (Body (Some [unknown_plant])) 2000 2000 ?s))
      = [''welcome'', ''msg_1000_image'', ''msg_1000_ood_response'']"
    unfolding ms using v(1) by (simp add: mk_message_def)
  from t v have rest: "pendingQuestion (handleImageClassification_resume image_example ''msg_1000''
        (Some ''What is it?'') (Body (Some [unknown_plant])) 2000 2000 ?s) = None"
    "showClassificationDialog (handleImageClassification_resume image_example ''msg_1000''
        (Some ''What is it?'') (Body (Some [unknown_plant])) 2000 2000 ?s) = False"
    "classifications (handleImageClassification_resume image_example ''msg_1000''
        (Some ''What is it?'') (Body (Some [unknown_plant])) 2000 2000 ?s) = []"
    by simp_all
  show ?thesis
    using h1 h2 ids rest by blast
qed

subsection \<open>The message list\<close>

lemma appended_append [simp]: "appended old (old @ added)"
  by (simp add: appended_def)

lemma appended_refl [simp]: "appended old old"
  by (simp add: appended_def)

lemma kept_except_filter [simp]:
  "kept_except pid old (filter (\<lambda>m. msg_id m \<noteq> pid) old @ added)"
  by (simp add: kept_except_def)

text \<open>Where no message has the id of the placeholder, nothing is removed.\<close>

lemma kept_except_appended:
  assumes "\<forall>m \<in> set old. msg_id m \<noteq> pid" and "kept_except pid old new"
  shows "appended old new"
proof -
  have "filter (\<lambda>m. msg_id m \<noteq> pid) old = old"
    using assms(1) by (simp add: filter_id_conv)
  then show ?thesis
    using assms(2) by (simp add: kept_except_def appended_def)
qed

lemma messages_begin:
  "messages (handleImageClassification_begin c messageId q now s) = messages s @
     (if length (imageFiles c) = 0 then []
      else [(mk_message (messageId @ ''_processing'')
               (Text (TXT_processing_images (length (imageFiles c)))) BOT TEXT now)
            \<lparr>msg_isProcessing := True\<rparr>])"
  "messages (handleTextOnlyQuestion_begin c messageId question now s) = messages s @
     [(mk_message (messageId @ ''_processing'') (Text TXT_processing_question) BOT TEXT now)
      \<lparr>msg_isProcessing := True\<rparr>]"
  "messages (handleQuestionWithSelectedPlant_begin c messageId l question now s) = messages s @
     [(mk_message (messageId @ ''_processing'') (Text TXT_answering_question) BOT TEXT now)
      \<lparr>msg_isProcessing := True\<rparr>]"
  by (simp_all add: handleImageClassification_begin_def handleTextOnlyQuestion_begin_def
      handleQuestionWithSelectedPlant_begin_def handler_defs Let_def)

lemma messages_reset_context [simp]: "messages (reset_context c s) = messages s"
  by (simp add: handler_defs Let_def)

lemma messages_handleSendMessage_begin:
  "appended (messages s) (messages (handleSendMessage_begin messageId timestamp now s))"
  by (simp add: handleSendMessage_begin_def Let_def messages_begin)

lemma messages_classification_resume:
  "kept_except (messageId @ ''_processing'') (messages s)
     (messages (handleImageClassification_resume c messageId q resp now now2 s))
   \<or> messages (handleImageClassification_resume c messageId q resp now now2 s) = messages s"
  by (simp add: handleImageClassification_resume_def handler_defs Let_def
      split: response.splits option.splits list.splits)

lemma messages_finally [simp]: "messages (handleSendMessage_finally c s) = messages s"
  by (simp add: handler_defs)

lemma messages_images:
  "messages (handleFileSelect files s) = messages s"
  "messages (handlePaste intoMessageInput clipboardItems s) = messages s"
  "messages (removeImage index s) = messages s"
  "messages (clearAllImages c s) = messages s"
proof -
  have c: "messages (snd (createObjectURLs ds x)) = messages x" for ds x
    by (induction ds arbitrary: x) (simp_all add: createObjectURL_def split_def Let_def)
  have p: "messages (snd (snd (paste_items items x))) = messages x" for items x
    by (induction items arbitrary: x)
       (simp_all add: createObjectURL_def split_def Let_def split: option.splits)
  show "messages (handleFileSelect files s) = messages s"
    using c [of "map file_data (filter (\<lambda>f. startsWith (file_type f) ''image/'') files)" s]
    by (simp add: handleFileSelect_def Let_def split_def)
  show "messages (handlePaste intoMessageInput clipboardItems s) = messages s"
  proof (cases clipboardItems)
    case None
    then show ?thesis by (simp add: handlePaste_def)
  next
    case (Some items)
    show ?thesis
      using p [of "filter (\<lambda>i. startsWith (item_type i) ''image/'') items"
          "s\<lparr>pasteIndicator := True, pasteError := None, showPasteHint := False\<rparr>"]
      by (simp add: handlePaste_def Some Let_def split_def)
  qed
  show "messages (removeImage index s) = messages s"
    by (simp add: removeImage_def Let_def revokeObjectURL_def)
  show "messages (clearAllImages c s) = messages s"
    by (simp add: handler_defs)
qed

lemma question_example_sent_eq:
  "question_example_sent = question_example
     \<lparr>messages := messages question_example @
        [mk_message ''msg_1000_text'' (Text (Str ''What is it?'')) USER TEXT 1000,
         (mk_message ''msg_1000_processing'' (Text TXT_processing_question) BOT TEXT 1000)
           \<lparr>msg_isProcessing := True\<rparr>],
      inputMessage := [], isLoading := True, error := None,
      requests := [POST_qa None ''What is it?'' (Some ''session-1'')]\<rparr>"
  by (simp add: question_example_sent_def handleSendMessage_begin_def
      handleTextOnlyQuestion_begin_def handler_defs userMessages_def Let_def
      question_example_def initial_chat_def truthy_str_def)

text \<open>
  Claim C9, as the code has it. Every handler keeps the messages that are in the list,
  in their order, and adds its own at the end, with one exception: the handlers that
  settle a request first remove the processing placeholder, the message of id
  \<open>`${messageId}_processing`\<close>, that the handler put there when it sent the request.
  For a question this is so for every way the request settles but an \<open>ok\<close> response
  with the JSON body \<open>null\<close>. The image handlers leave the list as it is.
\<close>

theorem messages_kept_except_placeholder:
  "appended (messages s) (messages (handleSendMessage_begin messageId timestamp now s))
   \<and> (kept_except (messageId @ ''_processing'') (messages s)
         (messages (handleSendMessage_resume_classification c messageId cresp now now2 s))
       \<or> messages (handleSendMessage_resume_classification c messageId cresp now now2 s) = messages s)
   \<and> (qresp \<noteq> NullBody \<longrightarrow>
        (\<exists>e. handleSendMessage_resume_question c messageId qresp now s = Some e
            \<and> kept_except (messageId @ ''_processing'') (messages s) (messages e))
      \<and> (\<exists>e. handleQuestionWithSelectedPlant_resume c messageId plantLabel question qresp now s
               = Some e
            \<and> kept_except (messageId @ ''_processing'') (messages s) (messages e)))
   \<and> appended (messages s) (messages (fst (handlePlantSelection plantLabel messageId now now2 now3 s)))
   \<and> appended (messages s)
        (messages (handleQuestionWithSelectedPlant_begin c messageId plantLabel question now s))
   \<and> messages (handleFileSelect files s) = messages s
   \<and> messages (handlePaste intoMessageInput clipboardItems s) = messages s
   \<and> messages (removeImage index s) = messages s
   \<and> messages (clearAllImages c s) = messages s"
proof -
  have sel: "appended (messages s) (messages (fst (handlePlantSelection plantLabel messageId now now2 now3 s)))"
    by (simp add: handlePlantSelection_def handler_defs Let_def)
  have q: "\<exists>e. handleSendMessage_resume_question c messageId qresp now s = Some e
            \<and> kept_except (messageId @ ''_processing'') (messages s) (messages e)"
    if "qresp \<noteq> NullBody"
    using resume_question_Some [OF that, of c messageId now s] by blast
  have q2: "\<exists>e. handleQuestionWithSelectedPlant_resume c messageId plantLabel question qresp now s
               = Some e
            \<and> kept_except (messageId @ ''_processing'') (messages s) (messages e)"
    if "qresp \<noteq> NullBody"
    using qa_settled_Some [OF that, of messageId now s]
    by (auto simp: handleQuestionWithSelectedPlant_resume_def)
  have cl: "kept_except (messageId @ ''_processing'') (messages s)
         (messages (handleSendMessage_resume_classification c messageId cresp now now2 s))
       \<or> messages (handleSendMessage_resume_classification c messageId cresp now now2 s) = messages s"
    using messages_classification_resume
    by (simp add: handleSendMessage_resume_classification_def)
  have b: "appended (messages s)
        (messages (handleQuestionWithSelectedPlant_begin c messageId plantLabel question now s))"
    by (simp add: messages_begin)
  show ?thesis
    using sel q q2 cl b messages_handleSendMessage_begin [of s messageId timestamp now]
      messages_images
    by blast
qed

text \<open>
  A question is sent and answered: the user message stays, the placeholder goes, the
  answer is added at the end.
\<close>

theorem messages_kept_except_placeholder_witness:
  "Body (Some ''A fig tree'') \<noteq> (NullBody :: string response)
   \<and> map msg_id (messages question_example_sent)
       = [''welcome'', ''msg_1000_text'', ''msg_1000_processing'']
   \<and> (\<exists>e. handleSendMessage_resume_question question_example ''msg_1000''
            (Body (Some ''A fig tree'')) 2000 question_example_sent = Some e
         \<and> kept_except (''msg_1000'' @ ''_processing'') (messages question_example_sent) (messages e)
         \<and> map msg_id (messages e) = [''welcome'', ''msg_1000_text'', ''msg_1000_answer''])"
proof -
  have h: "Body (Some ''A fig tree'') \<noteq> (NullBody :: string response)"
    by simp
  have ids: "map msg_id (messages question_example_sent)
       = [''welcome'', ''msg_1000_text'', ''msg_1000_processing'']"
    by (simp add: question_example_sent_eq question_example_def initial_chat_def mk_message_def)
  note t = messages_kept_except_placeholder [where qresp = "Body (Some ''A fig tree'')"
      and c = question_example and messageId = "''msg_1000''" and now = 2000
      and s = question_example_sent]
  from t h obtain e where e: "handleSendMessage_resume_question question_example ''msg_1000''
            (Body (Some ''A fig tree'')) 2000 question_example_sent = Some e"
      "kept_except (''msg_1000'' @ ''_processing'') (messages question_example_sent) (messages e)"
    by blast
  have "handleSendMessage_resume_question question_example ''msg_1000''
            (Body (Some ''A fig tree'')) 2000 question_example_sent
      = Some (handleSendMessage_finally question_example
          (append_message (answer_message ''msg_1000'' (Some ''A fig tree'') 2000)
             (remove_processing ''msg_1000'' question_example_sent)))"
    by (simp add: handleSendMessage_resume_question_def handleTextOnlyQuestion_resume_def
        qa_settled_def)
  with e(1) have "map msg_id (messages e) = [''welcome'', ''msg_1000_text'', ''msg_1000_answer'']"
    by (auto simp: handler_defs answer_message_def question_example_sent_eq question_example_def
        initial_chat_def mk_message_def)
  with e have "\<exists>e. handleSendMessage_resume_question question_example ''msg_1000''
            (Body (Some ''A fig tree'')) 2000 question_example_sent = Some e
         \<and> kept_except (''msg_1000'' @ ''_processing'') (messages question_example_sent) (messages e)
         \<and> map msg_id (messages e) = [''welcome'', ''msg_1000_text'', ''msg_1000_answer'']"
    by (intro exI [of _ e] conjI)
  with h ids show ?thesis
    by (intro conjI)
qed

text \<open>
  Claim C9, as stated, fails. An image is sent at clock 1000: the list then ends with
  the image message, stamped 1001, and the processing message, stamped 1000, so it is not
  ordered by timestamp. When the classification arrives, the processing message, which
  was in the list, is removed.
\<close>

theorem processing_message_removed:
  "map msg_id (messages image_example_sent) = [''welcome'', ''msg_1000_image'', ''msg_1000_processing'']
   \<and> map msg_timestamp (messages image_example_sent) = [0, 1001, 1000]
   \<and> map msg_id (messages image_example_classified)
       = [''welcome'', ''msg_1000_image'', ''msg_1000_classification_results'',
          ''msg_1000_selection_prompt'']"
proof -
  have f: "result_label ficus \<noteq> OOD_LABEL"
    by (simp add: ficus_def OOD_LABEL_def)
  show ?thesis
    using f
    by (simp add: image_example_classified_def handleSendMessage_resume_classification_def
      handleImageClassification_resume_def handler_defs image_example_sent_eq image_example_def
      initial_chat_def mk_message_def Let_def)
qed

section \<open>The request hooks\<close>

lemma toString_nat_nonempty: "toString_nat radix n \<noteq> []"
  by (subst toString_nat.simps) simp

lemma generateHash_nonempty: "generateHash str \<noteq> []"
  by (simp add: generateHash_def toString_int_def toString_nat_nonempty)

lemma createImageHash_nonempty: "createImageHash f \<noteq> []"
  by (simp add: createImageHash_def generateHash_nonempty)


lemma classifyImage_begin_Some:
  "classifyImage_begin (Some f) s =
     (Suspend Await_cache,
      s\<lparr>hook_loading := True, hook_error := None,
        aborted := (case abortControllerRef s of None \<Rightarrow> aborted s | Some a \<Rightarrow> a # aborted s),
        abortControllerRef := Some (controllers s), controllers := Suc (controllers s)\<rparr>)"
  by (simp add: classifyImage_begin_def cancel_ongoing_def split: option.splits)



subsection \<open>Playing a sequence of events\<close>

lemma run_Cons [simp]: "run (e # es) s = run es (classifyImage_event e s)"
  by (simp add: run_def)

lemma run_Nil [simp]: "run [] s = s"
  by (simp add: run_def)

text \<open>Only the call itself touches the controllers.\<close>

lemma controller_part_cached:
  "controller_part (snd (classifyImage_cached now f s)) = controller_part s"
  by (auto simp: controller_part_def classifyImage_cached_def classifyImage_fetch_def
      hook_fetch_def classifyImage_catch_def Let_def
      split: prod.splits option.splits thrown.splits)

lemma controller_part_compressed:
  "controller_part (snd (classifyImage_compressed r s)) = controller_part s"
  by (auto simp: controller_part_def classifyImage_compressed_def classifyImage_fetch_def
      hook_fetch_def classifyImage_catch_def split: sum.splits option.splits)



text \<open>
  \<open>controllers_wf\<close> holds of the hook as \<open>useClassification\<close> creates it, and every
  step of \<open>classifyImage\<close> keeps it.
\<close>

lemma controller_part_fetched:
  "controller_part (snd (classifyImage_fetched now f outcome s)) = controller_part s"
  by (auto simp: controller_part_def classifyImage_fetched_def classifyImage_catch_def Let_def
      split: fetch_outcome.splits option.splits sum.splits thrown.splits json.splits)

lemma controllers_wf_part:
  "controller_part t = controller_part s \<Longrightarrow> controllers_wf t = controllers_wf s"
  by (simp add: controller_part_def controllers_wf_def)

lemma controllers_wf_kept:
  "controllers_wf idle_hook"
  "controllers_wf s \<Longrightarrow> controllers_wf (snd (classifyImage_begin imageFile s))"
  "controllers_wf s \<Longrightarrow> controllers_wf (snd (classifyImage_cached now f s))"
  "controllers_wf s \<Longrightarrow> controllers_wf (snd (classifyImage_compressed r s))"
  "controllers_wf s \<Longrightarrow> controllers_wf (snd (classifyImage_fetched now f outcome s))"
proof -
  show "controllers_wf idle_hook"
    by (simp add: controllers_wf_def idle_hook_def)
  show "controllers_wf (snd (classifyImage_begin imageFile s))" if "controllers_wf s"
    using that
    by (cases imageFile)
       (auto simp: classifyImage_begin_def cancel_ongoing_def controllers_wf_def Let_def
          split: option.splits intro: less_SucI)
  show "controllers_wf (snd (classifyImage_cached now f s))" if "controllers_wf s"
    using that controllers_wf_part [OF controller_part_cached] by simp
  show "controllers_wf (snd (classifyImage_compressed r s))" if "controllers_wf s"
    using that controllers_wf_part [OF controller_part_compressed] by simp
  show "controllers_wf (snd (classifyImage_fetched now f outcome s))" if "controllers_wf s"
    using that controllers_wf_part [OF controller_part_fetched] by simp
qed








subsection \<open>A call whose controller is aborted\<close>

text \<open>
  What the guard in the \<open>catch\<close> block achieves: a call whose \<open>fetch\<close> is rejected with
  \<open>AbortError\<close> returns \<open>null\<close> and leaves \<open>error\<close> alone; its \<open>finally\<close> block sets
  \<open>loading\<close>.
\<close>

lemma fetch_rejected_with_AbortError:
  "classifyImage_fetched now imageFile Abort s = (Return JNull, s\<lparr>hook_loading := False\<rparr>)"
  "askQuestion_fetched now label question Abort s = (Return JNull, s\<lparr>hook_loading := False\<rparr>)"
  by (simp_all add: classifyImage_fetched_def classifyImage_catch_def askQuestion_fetched_def
      askQuestion_catch_def)

lemma superseded_in_lookup_eq:
  "superseded_in_lookup =
     idle_hook\<lparr>hook_loading := True, aborted := [0], abortControllerRef := Some 1,
       controllers := 2, network := [(Fetch_classify leaf_jpg, 1)]\<rparr>"
  by (simp add: superseded_in_lookup_def classifyImage_begin_Some classifyImage_cached_def
      classifyImage_fetch_def hook_fetch_def createImageHash_nonempty idle_hook_def leaf_jpg_def
      getCachedClassifications_def getCache_def openDatabase_def transaction_def
      CACHE_NAMES_values_def empty_db_def numeral_2_eq_2)

text \<open>
  Claim C6. A call whose abort token has fired never sets \<open>error\<close> and never changes
  what the hook shows. The code does not keep to this. The first of two calls has its
  controller 0 aborted by the second while its cache lookup is pending; it then sends
  its request on controller 1, the one current when it sends, and when the answer is
  HTTP 500 it sets \<open>error\<close> and sets \<open>loading\<close> to \<open>false\<close>, and when the answer is a
  list of results it sets \<open>classifications\<close>, with the second call still in flight.
  And a first call whose \<open>fetch\<close> was in flight on controller 0 and is rejected with
  \<open>AbortError\<close> sets \<open>loading\<close> to \<open>false\<close> while the second call is in flight.
\<close>

theorem superseded_call_changes_hook:
  "aborted superseded_in_lookup = [0]
   \<and> network superseded_in_lookup = [(Fetch_classify leaf_jpg, 1)]
   \<and> hook_error superseded_in_lookup = None
   \<and> hook_loading superseded_in_lookup = True
   \<and> hook_result superseded_in_lookup = JArr []
   \<and> hook_error (snd (classifyImage_fetched 1001 leaf_jpg (Response 500 None) superseded_in_lookup))
       = Some (Error_classifying_image (Classification_failed_HTTP 500))
   \<and> hook_loading (snd (classifyImage_fetched 1001 leaf_jpg (Response 500 None) superseded_in_lookup))
       = False
   \<and> hook_result (snd (classifyImage_fetched 1001 leaf_jpg
         (Response 200 (Some (JObj [(''results'', fig_results)]))) superseded_in_lookup))
       = fig_results
   \<and> aborted superseded_hook = [0]
   \<and> network superseded_hook = [(Fetch_classify leaf_jpg, 0)]
   \<and> hook_loading superseded_hook = True
   \<and> hook_loading (snd (classifyImage_fetched 1001 leaf_jpg Abort superseded_hook)) = False"
proof -
  have a: "aborted superseded_in_lookup = [0]"
    "network superseded_in_lookup = [(Fetch_classify leaf_jpg, 1)]"
    "hook_error superseded_in_lookup = None" "hook_loading superseded_in_lookup = True"
    "hook_result superseded_in_lookup = JArr []"
    by (simp_all add: superseded_in_lookup_eq idle_hook_def)
  have b: "hook_error (snd (classifyImage_fetched 1001 leaf_jpg (Response 500 None) superseded_in_lookup))
       = Some (Error_classifying_image (Classification_failed_HTTP 500))"
    "hook_loading (snd (classifyImage_fetched 1001 leaf_jpg (Response 500 None) superseded_in_lookup))
       = False"
    by (simp_all add: classifyImage_fetched_def response_ok_def error_detail_def
        classifyImage_catch_def)
  have c: "hook_result (snd (classifyImage_fetched 1001 leaf_jpg
         (Response 200 (Some (JObj [(''results'', fig_results)]))) superseded_in_lookup))
       = fig_results"
    by (simp add: classifyImage_fetched_def response_ok_def fig_results_def Let_def)
  have d: "aborted superseded_hook = [0]" "network superseded_hook = [(Fetch_classify leaf_jpg, 0)]"
    "hook_loading superseded_hook = True"
    "hook_loading (snd (classifyImage_fetched 1001 leaf_jpg Abort superseded_hook)) = False"
    by (simp_all add: superseded_hook_def classifyImage_begin_Some classifyImage_cached_def
      classifyImage_fetch_def hook_fetch_def createImageHash_nonempty idle_hook_def leaf_jpg_def
      getCachedClassifications_def getCache_def openDatabase_def transaction_def
      CACHE_NAMES_values_def empty_db_def fetch_rejected_with_AbortError)
  show ?thesis
    using a b c d by simp
qed

end
